theory Spec2Isabelle
  imports Main "HOL-Library.Sublist"
begin

section \<open>Data model of the request layer (requests.go)\<close>

text \<open>
  Strings and byte sequences are lists of bytes. A header collection keeps its entries in
  the order in which \<open>Header.Add\<close> appended them; \<open>Header.Get\<close> returns the first value
  stored under a key, or the empty string.
\<close>

type_synonym bytes = string
type_synonym header = "(string \<times> string) list"

definition header_Add :: "header \<Rightarrow> string \<Rightarrow> string \<Rightarrow> header" where
  "header_Add h k v = h @ [(k, v)]"

definition header_Get :: "header \<Rightarrow> string \<Rightarrow> string" where
  "header_Get h k = (case map_of h k of None \<Rightarrow> [] | Some v \<Rightarrow> v)"

text \<open>
  Errors are values. \<open>PathError op path status\<close> is what \<open>newPathError\<close> builds.
  Modelled from the spec: \<open>newPathError\<close> is declared outside requests.go; the spec
  describes its result as the tuple (operation name, path, HTTP status code).
  \<open>OtherError\<close> stands for every error that comes from a collaborator (transport,
  request construction, seeking, parsing); \<open>NilPanic\<close> is a nil dereference.
\<close>

datatype error =
    PathError string string int
  | OtherError string
  | NilPanic

text \<open>
  Modelled from the spec: the authenticator variants live outside requests.go. The spec
  names three immutable variants, each storing user and password, Digest also the
  challenge parameters; the anonymous one reports the type \<open>NoAuth\<close>, the others a
  type of their own.
\<close>

datatype authenticator =
    NoAuth string string
  | BasicAuth string string
  | DigestAuth string string "(string \<times> string) list"

fun auth_Type :: "authenticator \<Rightarrow> string" where
  "auth_Type (NoAuth u p) = ''NoAuth''"
| "auth_Type (BasicAuth u p) = ''BasicAuth''"
| "auth_Type (DigestAuth u p d) = ''DigestAuth''"

fun auth_User :: "authenticator \<Rightarrow> string" where
  "auth_User (NoAuth u p) = u"
| "auth_User (BasicAuth u p) = u"
| "auth_User (DigestAuth u p d) = u"

fun auth_Pass :: "authenticator \<Rightarrow> string" where
  "auth_Pass (NoAuth u p) = p"
| "auth_Pass (BasicAuth u p) = p"
| "auth_Pass (DigestAuth u p d) = p"

record request =
  Method :: string
  URL :: string
  Header :: header

text \<open>
  A response carries its status, its headers and its body. The body is an object that
  has to be closed: \<open>Body\<close> is its identity, \<open>BodyData\<close> the bytes it yields.
\<close>

record response =
  StatusCode :: int
  RespHeader :: header
  Body :: nat
  BodyData :: bytes

text \<open>
  The \<open>io.Reader\<close> values that reach \<open>req\<close> as a request body:
  \<^item> \<open>Seeker data pos results\<close>: a caller's reader that also implements \<open>io.Seeker\<close>;
    \<open>pos\<close> is its cursor, \<open>results\<close> the outcomes of its next calls of \<open>Seek\<close>
    (\<open>None\<close> is success; once the list is used up every call succeeds);
  \<open>strings.NewReader\<close> builds one with no failing call;
  \<^item> \<open>Stream data pos\<close>: a caller's reader without \<open>Seek\<close>;
  \<^item> \<open>Buffer data\<close>: a \<open>bytes.Buffer\<close> holding unread bytes; it has no \<open>Seek\<close>.
\<close>

datatype reader =
    Seeker bytes nat "error option list"
  | Stream bytes nat
  | Buffer bytes

fun is_Seeker :: "reader \<Rightarrow> bool" where
  "is_Seeker (Seeker d p s) = True"
| "is_Seeker (Stream d p) = False"
| "is_Seeker (Buffer d) = False"

fun unread :: "reader \<Rightarrow> bytes" where
  "unread (Seeker d p s) = drop p d"
| "unread (Stream d p) = drop p d"
| "unread (Buffer d) = d"

fun advance :: "nat \<Rightarrow> reader \<Rightarrow> reader" where
  "advance n (Seeker d p s) = Seeker d (p + n) s"
| "advance n (Stream d p) = Stream d (p + n)"
| "advance n (Buffer d) = Buffer (drop n d)"

text \<open>\<open>sk.Seek(0, io.SeekStart)\<close>: the error, if any, and the reader afterwards.\<close>

fun Seek_start :: "reader \<Rightarrow> error option \<times> reader" where
  "Seek_start (Seeker d p []) = (None, Seeker d 0 [])"
| "Seek_start (Seeker d p (None # s)) = (None, Seeker d 0 s)"
| "Seek_start (Seeker d p (Some e # s)) = (Some e, Seeker d p s)"
| "Seek_start (Stream d p) = (None, Stream d p)"
| "Seek_start (Buffer d) = (None, Buffer d)"

text \<open>
  The HTTP client \<open>c.c\<close>. Every call of \<open>Do\<close> is recorded in \<open>sent\<close> with the request,
  the body reader as it was handed over and the bytes that were read from it before
  \<open>Do\<close> returned. \<open>closed\<close> lists the response bodies that have been closed and
  \<open>logged\<close> the lines written with \<open>log.Printf\<close>.
\<close>

record attempt =
  a_request :: request
  a_body :: "reader option"
  a_read :: bytes

record 'sv transport =
  server :: 'sv
  sent :: "attempt list"
  closed :: "nat list"
  logged :: "(string \<times> string \<times> bytes) list"

record 'sv client =
  root :: string
  headers :: "(string \<times> string list) list"
  auth :: authenticator
  interceptor :: "(string \<Rightarrow> request \<Rightarrow> request) option"
  httpc :: "'sv transport"

text \<open>
  The collaborators that requests.go calls and does not define. \<open>Do\<close> is the network:
  from the server's state, the request and the bytes its body can still deliver, it
  gives the response or a transport error (a cancelled context is one), the number of
  body bytes it read before returning, and the server's next state.
  \<open>NewRequest_err\<close> says when \<open>http.NewRequest\<close> rejects a method or URL,
  \<open>ToLower\<close> is \<open>strings.ToLower\<close>.
\<close>

record ('sv, 't) env =
  PathEscape :: "string \<Rightarrow> string"
  Join :: "string \<Rightarrow> string \<Rightarrow> string"
  NewRequest_err :: "string \<Rightarrow> string \<Rightarrow> error option"
  ToLower :: "string \<Rightarrow> string"
  Authorize :: "authenticator \<Rightarrow> request \<Rightarrow> string \<Rightarrow> string \<Rightarrow> request"
  digestParts :: "response \<Rightarrow> (string \<times> string) list"
  Do :: "'sv \<Rightarrow> request \<Rightarrow> bytes \<Rightarrow> (error + (int \<times> header \<times> bytes)) \<times> nat \<times> 'sv"
  parseXML :: "bytes \<Rightarrow> 't \<Rightarrow> ('t \<Rightarrow> error option) \<Rightarrow> error option"

section \<open>Library functions used by the code\<close>

text \<open>
  \<open>strings.Index\<close>, and the lower-casing of ASCII text, which is what
  \<open>strings.ToLower\<close> does to a header made of ASCII bytes.
\<close>

definition lower_char :: "char \<Rightarrow> char" where
  "lower_char ch = (let n = (of_char ch :: nat) in
     if 65 \<le> n \<and> n \<le> 90 then char_of (n + 32) else ch)"

definition ascii_ToLower :: "string \<Rightarrow> string" where
  "ascii_ToLower s = map lower_char s"

fun Index_from :: "string \<Rightarrow> string \<Rightarrow> int \<Rightarrow> int" where
  "Index_from [] sub i = (if sub = [] then i else - 1)"
| "Index_from (x # xs) sub i =
     (if prefix sub (x # xs) then i else Index_from xs sub (i + 1))"

definition Index :: "string \<Rightarrow> string \<Rightarrow> int" where
  "Index s sub = Index_from s sub 0"

definition NewRequest :: "('sv, 't) env \<Rightarrow> string \<Rightarrow> string \<Rightarrow> error + request" where
  "NewRequest E method url =
     (case NewRequest_err E method url of
        Some e \<Rightarrow> Inl e
      | None \<Rightarrow> Inr \<lparr>Method = (if method = [] then ''GET'' else method),
                      URL = url, Header = []\<rparr>)"

definition close_body :: "nat \<Rightarrow> 'sv client \<Rightarrow> 'sv client" where
  "close_body b c = c\<lparr>httpc := (httpc c)\<lparr>closed := closed (httpc c) @ [b]\<rparr>\<rparr>"

section \<open>The request executor\<close>

text \<open>Lines 17 to 33: a seekable body is rewound, any other body is left as it is.\<close>

definition rewind :: "reader option \<Rightarrow> error option \<times> reader option" where
  "rewind body =
     (case body of
        None \<Rightarrow> (None, None)
      | Some b \<Rightarrow>
          if is_Seeker b then (case Seek_start b of (e, b') \<Rightarrow> (e, Some b'))
          else (None, Some b))"

text \<open>Lines 43 to 47: the client's default headers are added to the request.\<close>

definition add_headers :: "(string \<times> string list) list \<Rightarrow> request \<Rightarrow> request" where
  "add_headers hs r =
     fold (\<lambda>(k, vals) r'. fold (\<lambda>v r''. r''\<lparr>Header := header_Add (Header r'') k v\<rparr>) vals r') hs r"

text \<open>Lines 57 to 63: the caller's hook, then the client's interceptor.\<close>

definition hooks ::
  "'sv client \<Rightarrow> string \<Rightarrow> (request \<Rightarrow> request) option \<Rightarrow> request \<Rightarrow> request" where
  "hooks c method intercept r =
     (let r' = (case intercept of None \<Rightarrow> r | Some f \<Rightarrow> f r)
      in case interceptor c of None \<Rightarrow> r' | Some g \<Rightarrow> g method r')"

text \<open>
  Line 65: \<open>c.c.Do\<close>. The transport reads from the body what it reads; the call is
  recorded, the reader's cursor moves on, and the response body gets a fresh identity.
  The second component is what was read from the body.
\<close>

definition send ::
  "('sv, 't) env \<Rightarrow> 'sv client \<Rightarrow> request \<Rightarrow> reader option
     \<Rightarrow> (error + response) \<times> bytes \<times> reader option \<times> 'sv client" where
  "send E c r body =
     (let t = httpc c;
          avail = (case body of None \<Rightarrow> [] | Some b \<Rightarrow> unread b)
      in case Do E (server t) r avail of
           (out, n, sv') \<Rightarrow>
             let got = take n avail;
                 body' = map_option (advance (length got)) body;
                 t' = t\<lparr>server := sv',
                        sent := sent t @ [\<lparr>a_request = r, a_body = body, a_read = got\<rparr>]\<rparr>;
                 res = (case out of
                          Inl e \<Rightarrow> Inl e
                        | Inr (st, h, d) \<Rightarrow>
                            Inr \<lparr>StatusCode = st, RespHeader = h,
                                 Body = length (sent t), BodyData = d\<rparr>)
             in (res, got, body', c\<lparr>httpc := t'\<rparr>))"

text \<open>
  The reader that a retry gets (\<open>retryBuf\<close>): nothing for no body, the same object
  for a seekable body, and for any other body the buffer into which the tee reader
  copied what the transport read.
\<close>

definition retryBuf :: "reader option \<Rightarrow> bytes \<Rightarrow> reader option" where
  "retryBuf body' got =
     (case body' of
        None \<Rightarrow> None
      | Some b \<Rightarrow> if is_Seeker b then Some b else Some (Buffer got))"

text \<open>
  The caller's reader once a retry has returned: a seekable body is the object the
  retry worked on, any other body was not touched by the retry.
\<close>

definition after_retry :: "reader option \<Rightarrow> reader option \<Rightarrow> reader option" where
  "after_retry body2 body3 =
     (case body2 of
        None \<Rightarrow> None
      | Some b \<Rightarrow> if is_Seeker b then body3 else body2)"

text \<open>Lines 71 to 83: the authenticator that answers the challenge, if it is recognised.\<close>

definition upgrade ::
  "('sv, 't) env \<Rightarrow> authenticator \<Rightarrow> response \<Rightarrow> authenticator option" where
  "upgrade E a rs =
     (let wwwAuthenticateHeader =
            ToLower E (header_Get (RespHeader rs) ''Www-Authenticate'')
      in if Index wwwAuthenticateHeader ''digest'' > - 1
         then Some (DigestAuth (auth_User a) (auth_Pass a) (digestParts E rs))
         else if Index wwwAuthenticateHeader ''basic'' > - 1
         then Some (BasicAuth (auth_User a) (auth_Pass a))
         else None)"

text \<open>
  Lines 14 to 68, one attempt: rewind the body, build the request, add the default
  headers, authorise with the snapshot of \<open>c.auth\<close>, run the hooks, dispatch.
  \<open>Inl\<close> is an early return with an error (a failed seek, a rejected request, a
  transport error); \<open>Inr\<close> carries the response, the bytes read from the body, the
  body reader and the client afterwards.
\<close>

definition dispatch ::
  "('sv, 't) env \<Rightarrow> 'sv client \<Rightarrow> string \<Rightarrow> string \<Rightarrow> reader option
     \<Rightarrow> (request \<Rightarrow> request) option
     \<Rightarrow> (error \<times> reader option \<times> 'sv client)
         + (response \<times> bytes \<times> reader option \<times> 'sv client)" where
  "dispatch E c method path body intercept =
     (case rewind body of
        (Some e, body1) \<Rightarrow> Inl (e, body1, c)
      | (None, body1) \<Rightarrow>
     (case NewRequest E method (PathEscape E (Join E (root c) path)) of
        Inl e \<Rightarrow> Inl (e, body1, c)
      | Inr r0 \<Rightarrow>
     (case send E c
             (hooks c method intercept
                (Authorize E (auth c) (add_headers (headers c) r0) method path))
             body1 of
        (Inl e, got, body2, c1) \<Rightarrow> Inl (e, body2, c1)
      | (Inr rs, got, body2, c1) \<Rightarrow> Inr (rs, got, body2, c1))))"

text \<open>
  \<open>req\<close>: the result is the pair (response, error) of the source, the state in which
  the caller's body reader is left, and the client afterwards. Lines 70 to 92 decide
  on the response of the attempt; the retry is the call of \<open>req\<close> itself, on the
  client whose \<open>auth\<close> has been replaced.
\<close>

function req ::
  "('sv, 't) env \<Rightarrow> 'sv client \<Rightarrow> string \<Rightarrow> string \<Rightarrow> reader option
     \<Rightarrow> (request \<Rightarrow> request) option
     \<Rightarrow> (response option \<times> error option) \<times> reader option \<times> 'sv client" where
  "req E c method path body intercept =
     (case dispatch E c method path body intercept of
        Inl (e, body1, c1) \<Rightarrow> ((None, Some e), body1, c1)
      | Inr (rs, got, body2, c1) \<Rightarrow>
          if StatusCode rs = 401 \<and> auth_Type (auth c) = ''NoAuth'' then
            (case upgrade E (auth c) rs of
               None \<Rightarrow>
                 ((Some rs, Some (PathError ''Authorize'' (root c) (StatusCode rs))), body2, c1)
             | Some a' \<Rightarrow>
                 (case req E (c1\<lparr>auth := a'\<rparr>) method path (retryBuf body2 got) intercept of
                    (res, body3, c3) \<Rightarrow>
                      (res, after_retry body2 body3, c3)))
          else if StatusCode rs = 401 then
            ((Some rs, Some (PathError ''Authorize'' (root c) (StatusCode rs))), body2, c1)
          else ((Some rs, None), body2, c1))"
  by pat_completeness auto
termination
  apply (relation "measure (\<lambda>(E, c, method, path, body, intercept).
                      if auth_Type (auth c) = ''NoAuth'' then 1 else 0)")
   apply simp
  apply (auto simp: upgrade_def Let_def split: if_splits)
  done

section \<open>The verbs\<close>

text \<open>\<open>mkcol\<close> gives (status, error) and the client afterwards.\<close>

definition mkcol ::
  "('sv, 't) env \<Rightarrow> 'sv client \<Rightarrow> string \<Rightarrow> (int \<times> error option) \<times> 'sv client" where
  "mkcol E c path =
     (case req E c ''MKCOL'' path None None of
        ((rs, Some e), b, c1) \<Rightarrow> ((0, Some e), c1)
      | ((None, None), b, c1) \<Rightarrow> ((0, Some NilPanic), c1)
      | ((Some rs, None), b, c1) \<Rightarrow>
          (let status = StatusCode rs;
               status = (if status = 405 then 201 else status)
           in ((status, None), close_body (Body rs) c1)))"

definition options ::
  "('sv, 't) env \<Rightarrow> 'sv client \<Rightarrow> string
     \<Rightarrow> (response option \<times> error option) \<times> 'sv client" where
  "options E c path =
     (case req E c ''OPTIONS'' path None
             (Some (\<lambda>rq. rq\<lparr>Header := header_Add (Header rq) ''Depth'' ''0''\<rparr>)) of
        (res, b, c1) \<Rightarrow> (res, c1))"

text \<open>The hook that \<open>propfind\<close> hands to \<open>req\<close> (lines 117 to 128).\<close>

definition propfind_hook :: "bool \<Rightarrow> request \<Rightarrow> request" where
  "propfind_hook self rq =
     (let rq = (if self then rq\<lparr>Header := header_Add (Header rq) ''Depth'' ''0''\<rparr>
                else rq\<lparr>Header := header_Add (Header rq) ''Depth'' ''1''\<rparr>);
          rq = rq\<lparr>Header := header_Add (Header rq) ''Content-Type''
                                ''application/xml;charset=UTF-8''\<rparr>;
          rq = rq\<lparr>Header := header_Add (Header rq) ''Accept'' ''application/xml,text/xml''\<rparr>;
          rq = rq\<lparr>Header := header_Add (Header rq) ''Accept-Charset'' ''utf-8''\<rparr>
      in rq\<lparr>Header := header_Add (Header rq) ''Accept-Encoding'' []\<rparr>)"

definition propfind ::
  "('sv, 't) env \<Rightarrow> 'sv client \<Rightarrow> string \<Rightarrow> bool \<Rightarrow> string \<Rightarrow> 't
     \<Rightarrow> ('t \<Rightarrow> error option) \<Rightarrow> error option \<times> 'sv client" where
  "propfind E c path self body resp parse =
     (case req E c ''PROPFIND'' path (Some (Seeker body 0 [])) (Some (propfind_hook self)) of
        ((rs, Some e), b, c1) \<Rightarrow> (Some e, c1)
      | ((None, None), b, c1) \<Rightarrow> (Some NilPanic, c1)
      | ((Some rs, None), b, c1) \<Rightarrow>
          if StatusCode rs \<noteq> 207
          then (Some (PathError ''PROPFIND'' path (StatusCode rs)), close_body (Body rs) c1)
          else (parseXML E (BodyData rs) resp parse, close_body (Body rs) c1))"

text \<open>The hook that \<open>doCopyMove\<close> hands to \<open>req\<close> (lines 152 to 159).\<close>

definition copymove_hook ::
  "('sv, 't) env \<Rightarrow> 'sv client \<Rightarrow> string \<Rightarrow> bool \<Rightarrow> request \<Rightarrow> request" where
  "copymove_hook E c newpath overwrite rq =
     (let rq = rq\<lparr>Header := header_Add (Header rq) ''Destination''
                                (PathEscape E (Join E (root c) newpath))\<rparr>
      in if overwrite then rq\<lparr>Header := header_Add (Header rq) ''Overwrite'' ''T''\<rparr>
         else rq\<lparr>Header := header_Add (Header rq) ''Overwrite'' ''F''\<rparr>)"

text \<open>
  \<open>doCopyMove\<close> gives (status, body, error); the body is the response's body object
  with the bytes it yields, or nil.
\<close>

definition doCopyMove ::
  "('sv, 't) env \<Rightarrow> 'sv client \<Rightarrow> string \<Rightarrow> string \<Rightarrow> string \<Rightarrow> bool
     \<Rightarrow> (int \<times> (nat \<times> bytes) option \<times> error option) \<times> 'sv client" where
  "doCopyMove E c method oldpath newpath overwrite =
     (case req E c method oldpath None (Some (copymove_hook E c newpath overwrite)) of
        ((rs, Some e), b, c1) \<Rightarrow> ((0, None, Some e), c1)
      | ((None, None), b, c1) \<Rightarrow> ((0, None, Some NilPanic), c1)
      | ((Some rs, None), b, c1) \<Rightarrow>
          ((StatusCode rs, Some (Body rs, BodyData rs), None), c1))"

text \<open>
  \<open>path.Dir\<close> of the standard library: the path up to its last slash, cleaned
  (\<open>path.Clean\<close>: no empty and no \<open>.\<close> elements, \<open>..\<close> removes the element before
  it, and is dropped at the root; the empty result is \<open>.\<close>).
\<close>

fun split_slash :: "string \<Rightarrow> string \<Rightarrow> string list" where
  "split_slash [] acc = [acc]"
| "split_slash (ch # s) acc =
     (if ch = CHR ''/'' then acc # split_slash s [] else split_slash s (acc @ [ch]))"

definition clean_step :: "bool \<Rightarrow> string list \<Rightarrow> string \<Rightarrow> string list" where
  "clean_step rooted stack el =
     (if el = [] \<or> el = ''.'' then stack
      else if el = ''..'' then
        (if stack \<noteq> [] \<and> last stack \<noteq> ''..'' then butlast stack
         else if rooted then stack else stack @ [el])
      else stack @ [el])"

fun join_slash :: "string list \<Rightarrow> string" where
  "join_slash [] = []"
| "join_slash [x] = x"
| "join_slash (x # y # ys) = x @ ''/'' @ join_slash (y # ys)"

definition path_Clean :: "string \<Rightarrow> string" where
  "path_Clean p =
     (let rooted = (p \<noteq> [] \<and> hd p = CHR ''/'');
          out = (if rooted then ''/'' else []) @
                join_slash (foldl (clean_step rooted) [] (split_slash p []))
      in if out = [] then ''.'' else out)"

definition path_Dir :: "string \<Rightarrow> string" where
  "path_Dir p = path_Clean (rev (dropWhile (\<lambda>ch. ch \<noteq> CHR ''/'') (rev p)))"

text \<open>
  Modelled from the spec: \<open>MkdirAll\<close> is defined outside requests.go. Sections 4.4,
  4.6 and 8 of the spec say that it ensures that every ancestor collection of the path
  exists, the path itself being the last: one MKCOL with the semantics of \<open>mkcol\<close> per
  collection, grandparents before parents (for \<open>a/b\<close> first \<open>a\<close>, then
  \<open>a/b\<close>), each normalised to success, stopping at the root. The walk up through the
  parent directories of a cleaned path is the list of its prefixes, element by element.
  An error of \<open>mkcol\<close> ends the walk and is returned; so does a status that is not
  201 after normalisation, as the protocol error of section 7 (operation, path, status).
  The spec names no mode, so the third argument is ignored.
\<close>

definition ancestors :: "string \<Rightarrow> string list" where
  "ancestors p =
     (let pre = (if p \<noteq> [] \<and> hd p = CHR ''/'' then ''/'' else []);
          els = filter (\<lambda>el. el \<noteq> []) (split_slash p [])
      in map (\<lambda>k. pre @ join_slash (take k els)) [1..<Suc (length els)])"

fun mkcol_each ::
  "('sv, 't) env \<Rightarrow> 'sv client \<Rightarrow> string list \<Rightarrow> error option \<times> 'sv client" where
  "mkcol_each E c [] = (None, c)"
| "mkcol_each E c (p # ps) =
     (case mkcol E c p of
        ((status, Some e), c1) \<Rightarrow> (Some e, c1)
      | ((status, None), c1) \<Rightarrow>
          if status = 201 then mkcol_each E c1 ps
          else (Some (PathError ''MkdirAll'' p status), c1))"

definition MkdirAll ::
  "('sv, 't) env \<Rightarrow> 'sv client \<Rightarrow> string \<Rightarrow> nat \<Rightarrow> error option \<times> 'sv client" where
  "MkdirAll E c path perm = mkcol_each E c (ancestors path)"

definition createParentCollection ::
  "('sv, 't) env \<Rightarrow> 'sv client \<Rightarrow> string \<Rightarrow> error option \<times> 'sv client" where
  "createParentCollection E c itemPath =
     (let parentPath = path_Dir itemPath
      in if parentPath = ''.'' \<or> parentPath = ''/'' then (None, c)
         else MkdirAll E c parentPath 493)"

text \<open>\<open>data.Close()\<close> under \<open>if data != nil\<close>.\<close>

definition close_data :: "(nat \<times> bytes) option \<Rightarrow> 'sv client \<Rightarrow> 'sv client" where
  "close_data data c = (case data of None \<Rightarrow> c | Some (b, d) \<Rightarrow> close_body b c)"

text \<open>The line that the 207 case writes with \<open>log.Printf\<close>; \<open>String\<close> reads the body.\<close>

definition log_todo ::
  "string \<Rightarrow> string \<Rightarrow> (nat \<times> bytes) option \<Rightarrow> 'sv client \<Rightarrow> 'sv client" where
  "log_todo method oldpath data c =
     c\<lparr>httpc := (httpc c)\<lparr>logged := logged (httpc c) @
        [(method, oldpath, (case data of None \<Rightarrow> [] | Some (b, d) \<Rightarrow> d))]\<rparr>\<rparr>"

text \<open>
  \<open>copymove\<close> calls itself on 409 with nothing that counts the calls, so it is a
  partial function: \<open>None\<close> is a call that never returns. The deferred
  \<open>data.Close()\<close> runs when the call returns, after the inner call has returned.
\<close>

partial_function (option) copymove ::
  "('sv, 't) env \<Rightarrow> 'sv client \<Rightarrow> string \<Rightarrow> string \<Rightarrow> string \<Rightarrow> bool
     \<Rightarrow> (error option \<times> 'sv client) option" where
  "copymove E c method oldpath newpath overwrite =
     (case doCopyMove E c method oldpath newpath overwrite of
        ((s, data, Some e), c1) \<Rightarrow> Some (Some e, c1)
      | ((s, data, None), c1) \<Rightarrow>
          if s = 201 \<or> s = 204 then Some (None, close_data data c1)
          else if s = 207 then
            Some (Some (PathError method oldpath s),
                  close_data data (log_todo method oldpath data c1))
          else if s = 409 then
            (case createParentCollection E c1 newpath of
               (Some e, c2) \<Rightarrow> Some (Some e, close_data data c2)
             | (None, c2) \<Rightarrow>
                 Option.bind (copymove E c2 method oldpath newpath overwrite)
                   (\<lambda>r. Some (fst r, close_data data (snd r))))
          else Some (Some (PathError method oldpath s), close_data data c1))"

text \<open>
  One round of \<open>copymove\<close>, for stating what a call does over its rounds: \<open>Inl\<close>
  is the result of a round that ends the call (the error and the client after the
  deferred close), \<open>Inr\<close> is a round that got 409 and created the parent collections,
  with the body it still has to close and the client on which \<open>copymove\<close> is called
  again. \<open>after_conflicts k\<close> is the client after \<open>k\<close> such rounds in a row, with
  the bodies that are still open, the first round's first.
\<close>

definition copymove_attempt ::
  "('sv, 't) env \<Rightarrow> 'sv client \<Rightarrow> string \<Rightarrow> string \<Rightarrow> string \<Rightarrow> bool
     \<Rightarrow> (error option \<times> 'sv client) + ((nat \<times> bytes) option \<times> 'sv client)" where
  "copymove_attempt E c method oldpath newpath overwrite =
     (case doCopyMove E c method oldpath newpath overwrite of
        ((s, data, Some e), c1) \<Rightarrow> Inl (Some e, c1)
      | ((s, data, None), c1) \<Rightarrow>
          if s = 201 \<or> s = 204 then Inl (None, close_data data c1)
          else if s = 207 then
            Inl (Some (PathError method oldpath s),
                 close_data data (log_todo method oldpath data c1))
          else if s = 409 then
            (case createParentCollection E c1 newpath of
               (Some e, c2) \<Rightarrow> Inl (Some e, close_data data c2)
             | (None, c2) \<Rightarrow> Inr (data, c2))
          else Inl (Some (PathError method oldpath s), close_data data c1))"

fun after_conflicts ::
  "('sv, 't) env \<Rightarrow> nat \<Rightarrow> 'sv client \<Rightarrow> string \<Rightarrow> string \<Rightarrow> string \<Rightarrow> bool
     \<Rightarrow> ('sv client \<times> (nat \<times> bytes) option list) option" where
  "after_conflicts E 0 c method oldpath newpath overwrite = Some (c, [])"
| "after_conflicts E (Suc k) c method oldpath newpath overwrite =
     (case copymove_attempt E c method oldpath newpath overwrite of
        Inl r \<Rightarrow> None
      | Inr (data, c2) \<Rightarrow>
          (case after_conflicts E k c2 method oldpath newpath overwrite of
             None \<Rightarrow> None
           | Some (ck, ds) \<Rightarrow> Some (ck, data # ds)))"

text \<open>\<open>put\<close> gives (status, error), the state of the stream and the client.\<close>

definition put ::
  "('sv, 't) env \<Rightarrow> 'sv client \<Rightarrow> string \<Rightarrow> reader option
     \<Rightarrow> (int \<times> error option) \<times> reader option \<times> 'sv client" where
  "put E c path stream =
     (case req E c ''PUT'' path stream None of
        ((rs, Some e), b, c1) \<Rightarrow> ((0, Some e), b, c1)
      | ((None, None), b, c1) \<Rightarrow> ((0, Some NilPanic), b, c1)
      | ((Some rs, None), b, c1) \<Rightarrow> ((StatusCode rs, None), b, close_body (Body rs) c1))"

section \<open>Traces\<close>

text \<open>What one attempt leaves behind, whatever its outcome.\<close>

definition one_attempt ::
  "'sv client \<Rightarrow> string \<Rightarrow> (request \<Rightarrow> request) option \<Rightarrow> reader option
     \<Rightarrow> 'sv client \<Rightarrow> reader option \<Rightarrow> attempt list \<Rightarrow> bool" where
  "one_attempt c method intercept body c1 body2 new \<longleftrightarrow>
     root c1 = root c \<and> headers c1 = headers c \<and> interceptor c1 = interceptor c
     \<and> auth c1 = auth c
     \<and> closed (httpc c1) = closed (httpc c) \<and> logged (httpc c1) = logged (httpc c)
     \<and> sent (httpc c1) = sent (httpc c) @ new
     \<and> (new = [] \<and> c1 = c \<and> (\<exists>e. rewind body = (e, body2))
        \<or> (\<exists>a body1. new = [a] \<and> rewind body = (None, body1) \<and> a_body a = body1
              \<and> (\<exists>rq. a_request a = hooks c method intercept rq)
              \<and> prefix (a_read a) (case body1 of None \<Rightarrow> [] | Some b \<Rightarrow> unread b)
              \<and> body2 = map_option (advance (length (a_read a))) body1))"

section \<open>A scripted server\<close>

text \<open>
  A server that answers from a script, for running the definitions on concrete calls:
  each entry is the outcome of one call of \<open>Do\<close> and the number of body bytes the
  transport reads before it returns. Paths are joined by concatenation and not
  escaped, every request is well formed, authorising adds one header naming the
  scheme, and the parser reports what the parse callback returns.
\<close>

type_synonym reply = "(error + (int \<times> header \<times> bytes)) \<times> nat"

definition script_Do ::
  "reply list \<Rightarrow> request \<Rightarrow> bytes \<Rightarrow> (error + (int \<times> header \<times> bytes)) \<times> nat \<times> reply list" where
  "script_Do sv r avail =
     (case sv of
        [] \<Rightarrow> (Inl (OtherError ''connection refused''), 0, [])
      | x # xs \<Rightarrow> (fst x, snd x, xs))"

definition script_Authorize :: "authenticator \<Rightarrow> request \<Rightarrow> string \<Rightarrow> string \<Rightarrow> request" where
  "script_Authorize a r method path =
     (if auth_Type a = ''NoAuth'' then r
      else r\<lparr>Header := header_Add (Header r) ''Authorization'' (auth_Type a)\<rparr>)"

definition script_env :: "(reply list, unit) env" where
  "script_env =
     \<lparr>PathEscape = (\<lambda>s. s), Join = (\<lambda>r p. r @ p), NewRequest_err = (\<lambda>m u. None),
      ToLower = ascii_ToLower, Authorize = script_Authorize, digestParts = (\<lambda>rs. []), Do = script_Do,
      parseXML = (\<lambda>d t parse. parse t)\<rparr>"

definition script_client :: "authenticator \<Rightarrow> reply list \<Rightarrow> reply list client" where
  "script_client a sv =
     \<lparr>root = ''/dav/'', headers = [], auth = a, interceptor = None,
      httpc = \<lparr>server = sv, sent = [], closed = [], logged = []\<rparr>\<rparr>"

definition reply :: "int \<Rightarrow> string \<Rightarrow> nat \<Rightarrow> reply" where
  "reply st challenge n =
     (Inr (st, (if challenge = [] then [] else [(''Www-Authenticate'', challenge)]), []), n)"

text \<open>A parse callback that accepts every response element.\<close>

definition parse_ok :: "unit \<Rightarrow> error option" where
  "parse_ok t = None"

text \<open>A server that answers every request with 409.\<close>

definition conflict_env :: "(reply list, unit) env" where
  "conflict_env = script_env\<lparr>Do := (\<lambda>sv r avail. (Inr (409, [], []), 0, sv))\<rparr>"

section \<open>Facts about one attempt\<close>

declare req.simps [simp del]

declare copymove.simps [code]

lemma upgrade_not_NoAuth: "upgrade E a rs = Some a' \<Longrightarrow> auth_Type a' \<noteq> ''NoAuth''"
  by (auto simp: upgrade_def Let_def split: if_splits)

lemma send_effect:
  assumes "send E c r body = (out, got, body', c1)"
  shows "root c1 = root c" and "headers c1 = headers c" and "auth c1 = auth c"
    and "interceptor c1 = interceptor c"
    and "sent (httpc c1) = sent (httpc c) @ [\<lparr>a_request = r, a_body = body, a_read = got\<rparr>]"
    and "closed (httpc c1) = closed (httpc c)"
    and "logged (httpc c1) = logged (httpc c)"
    and "body' = map_option (advance (length got)) body"
    and "prefix got (case body of None \<Rightarrow> [] | Some b \<Rightarrow> unread b)"
    and "\<And>rs. out = Inr rs \<Longrightarrow> Body rs = length (sent (httpc c))"
  using assms
  by (auto simp: send_def Let_def take_is_prefix split: prod.splits sum.splits)

lemma hooks_cong: "interceptor c1 = interceptor c \<Longrightarrow> hooks c1 = hooks c"
  by (intro ext) (simp add: hooks_def)

lemma dispatch_Inr:
  assumes "dispatch E c method path body intercept = Inr (rs, got, body2, c1)"
  shows "\<exists>body1 r0. rewind body = (None, body1)
            \<and> NewRequest E method (PathEscape E (Join E (root c) path)) = Inr r0
            \<and> send E c (hooks c method intercept
                  (Authorize E (auth c) (add_headers (headers c) r0) method path)) body1
                = (Inr rs, got, body2, c1)"
  using assms
  by (auto simp: dispatch_def split: prod.splits option.splits sum.splits)

lemma dispatch_Inl:
  assumes "dispatch E c method path body intercept = Inl (e, body1, c1)"
  shows "(c1 = c \<and> (rewind body = (Some e, body1) \<or> rewind body = (None, body1)))
         \<or> (\<exists>b r got. rewind body = (None, b) \<and> send E c r b = (Inl e, got, body1, c1))"
  using assms
  by (auto simp: dispatch_def split: prod.splits option.splits sum.splits)

lemma dispatch_fields:
  assumes "dispatch E c method path body intercept = Inr (rs, got, body2, c1)"
  shows "root c1 = root c \<and> headers c1 = headers c \<and> auth c1 = auth c
         \<and> interceptor c1 = interceptor c"
proof -
  from dispatch_Inr [OF assms] obtain body1 r where
    "send E c r body1 = (Inr rs, got, body2, c1)" by blast
  then show ?thesis by (simp add: send_effect)
qed

lemma dispatch_sent:
  assumes "dispatch E c method path body intercept = Inr (rs, got, body2, c1)"
  shows "\<exists>a. sent (httpc c1) = sent (httpc c) @ [a] \<and> a_read a = got"
proof -
  from dispatch_Inr [OF assms] obtain body1 r where
    "send E c r body1 = (Inr rs, got, body2, c1)" by blast
  then show ?thesis by (simp add: send_effect)
qed

lemma dispatch_Inl_sent:
  assumes "dispatch E c method path body intercept = Inl (e, body1, c1)"
  shows "length (sent (httpc c1)) \<le> length (sent (httpc c)) + 1 \<and> auth c1 = auth c
         \<and> root c1 = root c \<and> interceptor c1 = interceptor c \<and> headers c1 = headers c"
  using dispatch_Inl [OF assms] by (auto simp: send_effect)

lemma dispatch_cases:
  obtains (early) e body1 where
      "dispatch E c method path body intercept = Inl (e, body1, c)"
      "rewind body = (Some e, body1) \<or> rewind body = (None, body1)"
  | (sent) out got body1 body2 c1 r0 where
      "rewind body = (None, body1)"
      "NewRequest E method (PathEscape E (Join E (root c) path)) = Inr r0"
      "send E c (hooks c method intercept
                   (Authorize E (auth c) (add_headers (headers c) r0) method path)) body1
         = (out, got, body2, c1)"
      "dispatch E c method path body intercept
         = (case out of Inl e \<Rightarrow> Inl (e, body2, c1) | Inr rs \<Rightarrow> Inr (rs, got, body2, c1))"
proof (cases "rewind body")
  case (Pair eo body1)
  show ?thesis
  proof (cases eo)
    case (Some e)
    with Pair have "dispatch E c method path body intercept = Inl (e, body1, c)"
      by (simp add: dispatch_def)
    with Pair Some show ?thesis by (intro early) auto
  next
    case None
    show ?thesis
    proof (cases "NewRequest E method (PathEscape E (Join E (root c) path))")
      case (Inl e)
      with Pair None have "dispatch E c method path body intercept = Inl (e, body1, c)"
        by (simp add: dispatch_def)
      with Pair None show ?thesis by (intro early) auto
    next
      case (Inr r0)
      obtain out got body2 c1 where
        s: "send E c (hooks c method intercept
                   (Authorize E (auth c) (add_headers (headers c) r0) method path)) body1
              = (out, got, body2, c1)"
        using prod_cases4 by blast
      have "dispatch E c method path body intercept
         = (case out of Inl e \<Rightarrow> Inl (e, body2, c1) | Inr rs \<Rightarrow> Inr (rs, got, body2, c1))"
        using Pair None Inr s by (simp add: dispatch_def split: sum.splits)
      with Pair None Inr s show ?thesis by (intro sent) auto
    qed
  qed
qed

lemma dispatch_one_attempt:
  "\<exists>new. (case dispatch E c meth path body intercept of
            Inl (e, body2, c1) \<Rightarrow> one_attempt c meth intercept body c1 body2 new
          | Inr (rs, got, body2, c1) \<Rightarrow>
              one_attempt c meth intercept body c1 body2 new
              \<and> new \<noteq> [] \<and> a_read (hd new) = got \<and> Body rs = length (sent (httpc c)))"
proof (cases rule: dispatch_cases [of E c meth path body intercept])
  case (early e body1)
  then show ?thesis
    by (intro exI [of _ "[]"]) (auto simp: one_attempt_def)
next
  case (sent out got body1 body2 c1 r0)
  let ?a = "\<lparr>a_request = hooks c meth intercept
                   (Authorize E (auth c) (add_headers (headers c) r0) meth path),
              a_body = body1, a_read = got\<rparr>"
  have "one_attempt c meth intercept body c1 body2 [?a]"
    using sent(1) send_effect [OF sent(3)]
    by (auto simp: one_attempt_def)
  moreover have "\<And>rs. out = Inr rs \<Longrightarrow> Body rs = length (sent (httpc c))"
    using send_effect(10) [OF sent(3)] by simp
  ultimately show ?thesis using sent(4)
    by (intro exI [of _ "[?a]"]) (auto split: sum.splits)
qed

section \<open>Facts about the request executor\<close>

lemma req_authenticated:
  "auth_Type (auth c) \<noteq> ''NoAuth'' \<Longrightarrow>
   req E c method path body intercept =
     (case dispatch E c method path body intercept of
        Inl (e, body1, c1) \<Rightarrow> ((None, Some e), body1, c1)
      | Inr (rs, got, body2, c1) \<Rightarrow>
          if StatusCode rs = 401
          then ((Some rs, Some (PathError ''Authorize'' (root c) (StatusCode rs))), body2, c1)
          else ((Some rs, None), body2, c1))"
  by (subst req.simps) (simp split: sum.splits prod.splits)

lemma req_unrolled:
  "req E c method path body intercept =
     (case dispatch E c method path body intercept of
        Inl (e, body1, c1) \<Rightarrow> ((None, Some e), body1, c1)
      | Inr (rs, got, body2, c1) \<Rightarrow>
          if StatusCode rs = 401 \<and> auth_Type (auth c) = ''NoAuth'' then
            (case upgrade E (auth c) rs of
               None \<Rightarrow>
                 ((Some rs, Some (PathError ''Authorize'' (root c) (StatusCode rs))), body2, c1)
             | Some a' \<Rightarrow>
                 (case dispatch E (c1\<lparr>auth := a'\<rparr>) method path (retryBuf body2 got) intercept of
                    Inl (e, body3, c3) \<Rightarrow> ((None, Some e), after_retry body2 body3, c3)
                  | Inr (rs2, got2, body3, c3) \<Rightarrow>
                      if StatusCode rs2 = 401
                      then ((Some rs2, Some (PathError ''Authorize'' (root c) (StatusCode rs2))),
                            after_retry body2 body3, c3)
                      else ((Some rs2, None), after_retry body2 body3, c3)))
          else if StatusCode rs = 401 then
            ((Some rs, Some (PathError ''Authorize'' (root c) (StatusCode rs))), body2, c1)
          else ((Some rs, None), body2, c1))"
proof (cases "dispatch E c method path body intercept")
  case (Inl x)
  then show ?thesis by (subst req.simps) (simp split: prod.splits)
next
  case (Inr y)
  obtain rs got body2 c1 where y: "y = (rs, got, body2, c1)" by (cases y) auto
  note d = Inr [unfolded y]
  have f: "root c1 = root c" using dispatch_fields [OF d] by simp
  show ?thesis
  proof (cases "upgrade E (auth c) rs")
    case None
    then show ?thesis using d by (subst req.simps) simp
  next
    case (Some a')
    have "auth_Type (auth (c1\<lparr>auth := a'\<rparr>)) \<noteq> ''NoAuth''"
      using upgrade_not_NoAuth [OF Some] by simp
    note ra = req_authenticated [OF this, of E "method" path "retryBuf body2 got" intercept]
    show ?thesis using d Some
      by (subst req.simps) (simp add: ra f after_retry_def split: sum.splits prod.splits)
  qed
qed

lemma req_trace:
  assumes "req E c method path body intercept = (res, body', c')"
  shows "\<exists>new1 body2 c1.
           one_attempt c method intercept body c1 body2 new1
           \<and> (c' = c1 \<and> body' = body2
              \<or> (\<exists>a' new2 body3.
                    new1 \<noteq> [] \<and> auth_Type (auth c) = ''NoAuth''
                    \<and> one_attempt (c1\<lparr>auth := a'\<rparr>) method intercept
                         (retryBuf body2 (a_read (hd new1))) c' body3 new2
                    \<and> body' = after_retry body2 body3))"
proof (cases "dispatch E c method path body intercept")
  case (Inl x)
  obtain e body2 c1 where x: "x = (e, body2, c1)" by (cases x) auto
  from dispatch_one_attempt [where E=E and c=c and meth="method" and path=path and body=body and intercept=intercept] Inl x
  obtain new where "one_attempt c method intercept body c1 body2 new" by auto
  moreover have "c' = c1 \<and> body' = body2"
    using assms Inl x by (simp add: req_unrolled)
  ultimately show ?thesis by blast
next
  case (Inr y)
  obtain rs got body2 c1 where y: "y = (rs, got, body2, c1)" by (cases y) auto
  from dispatch_one_attempt [where E=E and c=c and meth="method" and path=path and body=body and intercept=intercept] Inr y
  obtain new1 where n1: "one_attempt c method intercept body c1 body2 new1"
    "new1 \<noteq> []" "a_read (hd new1) = got" by auto
  show ?thesis
  proof (cases "StatusCode rs = 401 \<and> auth_Type (auth c) = ''NoAuth''
                  \<and> upgrade E (auth c) rs \<noteq> None")
    case False
    then have "c' = c1 \<and> body' = body2"
      using assms Inr y by (auto simp: req_unrolled split: if_splits)
    with n1 show ?thesis by blast
  next
    case True
    then obtain a' where a': "upgrade E (auth c) rs = Some a'" by auto
    let ?k = "c1\<lparr>auth := a'\<rparr>"
    let ?d = "dispatch E ?k method path (retryBuf body2 got) intercept"
    from dispatch_one_attempt [where E=E and c="?k" and meth="method" and path=path and body="retryBuf body2 got" and intercept=intercept]
    obtain new2 where
      n2: "case ?d of
             Inl (e, body3, c3) \<Rightarrow>
               one_attempt ?k method intercept (retryBuf body2 got) c3 body3 new2
           | Inr (rs, g, body3, c3) \<Rightarrow>
               one_attempt ?k method intercept (retryBuf body2 got) c3 body3 new2
               \<and> new2 \<noteq> [] \<and> a_read (hd new2) = g \<and> Body rs = length (sent (httpc ?k))"
      by blast
    have "\<exists>body3. one_attempt ?k method intercept (retryBuf body2 got) c' body3 new2
              \<and> body' = after_retry body2 body3"
      using assms Inr y True a' n2
      by (auto simp: req_unrolled split: sum.splits prod.splits if_splits)
    with n1 True show ?thesis by blast
  qed
qed

lemma Index_from_sublist:
  "0 \<le> i \<Longrightarrow> (Index_from s sub i > - 1) = sublist sub s"
proof (induction s arbitrary: i)
  case Nil
  then show ?case by simp
next
  case (Cons x xs)
  then show ?case by (simp add: sublist_Cons_right)
qed

lemma Index_sublist: "(Index s sub > - 1) = sublist sub s"
  by (simp add: Index_def Index_from_sublist)

lemma upgrade_None_iff:
  "upgrade E a rs = None \<longleftrightarrow>
     \<not> sublist ''digest'' (ToLower E (header_Get (RespHeader rs) ''Www-Authenticate''))
     \<and> \<not> sublist ''basic'' (ToLower E (header_Get (RespHeader rs) ''Www-Authenticate''))"
  by (simp add: upgrade_def Let_def Index_sublist)

lemma rewind_not_Seeker: "\<not> is_Seeker b \<Longrightarrow> rewind (Some b) = (None, Some b)"
  by (simp add: rewind_def)

lemma advance_not_Seeker: "is_Seeker (advance n b) = is_Seeker b"
  by (cases b) auto

lemma unread_advance_all: "unread (advance (length (unread b)) b) = []"
  by (cases b) auto

lemma req_result_shape:
  assumes "req E c method path body intercept = ((r, err), b, c1)"
  shows "(err = None \<longrightarrow> (\<exists>rs. r = Some rs \<and> StatusCode rs \<noteq> 401))
         \<and> (r = None \<longrightarrow> err \<noteq> None)"
  using assms
  by (auto simp: req_unrolled split: sum.splits prod.splits if_splits option.splits)

lemma one_attempt_requests:
  assumes "one_attempt c method intercept body c1 body2 new"
  shows "\<forall>a\<in>set new. \<exists>rq. a_request a = hooks c method intercept rq"
  using assms by (auto simp: one_attempt_def)

lemma req_effect:
  assumes "req E c method path body intercept = (res, body', c')"
  shows "root c' = root c \<and> headers c' = headers c \<and> interceptor c' = interceptor c
       \<and> closed (httpc c') = closed (httpc c) \<and> logged (httpc c') = logged (httpc c)
       \<and> (\<exists>new. sent (httpc c') = sent (httpc c) @ new \<and> length new \<le> 2
              \<and> (\<forall>a\<in>set new. \<exists>rq. a_request a = hooks c method intercept rq))"
proof -
  from req_trace [OF assms] obtain new1 body2 c1 where
    o1: "one_attempt c method intercept body c1 body2 new1"
    and r: "c' = c1 \<and> body' = body2
            \<or> (\<exists>a' new2 body3.
                  new1 \<noteq> [] \<and> auth_Type (auth c) = ''NoAuth''
                  \<and> one_attempt (c1\<lparr>auth := a'\<rparr>) method intercept
                       (retryBuf body2 (a_read (hd new1))) c' body3 new2
                  \<and> body' = after_retry body2 body3)"
    by blast
  note q1 = one_attempt_requests [OF o1]
  from o1 have f1: "root c1 = root c" "headers c1 = headers c" "interceptor c1 = interceptor c"
    "closed (httpc c1) = closed (httpc c)" "logged (httpc c1) = logged (httpc c)"
    "sent (httpc c1) = sent (httpc c) @ new1" "length new1 \<le> 1"
    by (auto simp: one_attempt_def)
  from r show ?thesis
  proof
    assume "c' = c1 \<and> body' = body2"
    with f1 q1 show ?thesis by auto
  next
    assume "\<exists>a' new2 body3.
                  new1 \<noteq> [] \<and> auth_Type (auth c) = ''NoAuth''
                  \<and> one_attempt (c1\<lparr>auth := a'\<rparr>) method intercept
                       (retryBuf body2 (a_read (hd new1))) c' body3 new2
                  \<and> body' = after_retry body2 body3"
    then obtain a' new2 body3 where
      o2: "one_attempt (c1\<lparr>auth := a'\<rparr>) method intercept
                       (retryBuf body2 (a_read (hd new1))) c' body3 new2" by blast
    have h: "hooks (c1\<lparr>auth := a'\<rparr>) = hooks c"
      using f1 by (intro hooks_cong) simp
    from one_attempt_requests [OF o2] h
    have q2: "\<forall>a\<in>set new2. \<exists>rq. a_request a = hooks c method intercept rq" by simp
    from o2 have f2: "root c' = root c1" "headers c' = headers c1"
      "interceptor c' = interceptor c1"
      "closed (httpc c') = closed (httpc c1)" "logged (httpc c') = logged (httpc c1)"
      "sent (httpc c') = sent (httpc c1) @ new2" "length new2 \<le> 1"
      by (auto simp: one_attempt_def)
    have "sent (httpc c') = sent (httpc c) @ (new1 @ new2)" using f1 f2 by simp
    moreover have "length (new1 @ new2) \<le> 2" using f1 f2 by simp
    moreover have "\<forall>a\<in>set (new1 @ new2). \<exists>rq. a_request a = hooks c method intercept rq"
      using q1 q2 by auto
    ultimately show ?thesis using f1 f2 by metis
  qed
qed

lemma req_requests:
  assumes "req E c method path body intercept = (res, body', c')"
  shows "\<forall>a\<in>set (drop (length (sent (httpc c))) (sent (httpc c'))).
           \<exists>rq. a_request a = hooks c method intercept rq"
  using req_effect [OF assms] by auto

lemma hooks_Some:
  "hooks c m (Some f) rq = (case interceptor c of None \<Rightarrow> f rq | Some g \<Rightarrow> g m (f rq))"
  by (simp add: hooks_def Let_def)

lemma propfind_hook_Header:
  "Header (propfind_hook self rq)
     = Header rq @ [(''Depth'', if self then ''0'' else ''1''),
                    (''Content-Type'', ''application/xml;charset=UTF-8''),
                    (''Accept'', ''application/xml,text/xml''),
                    (''Accept-Charset'', ''utf-8''),
                    (''Accept-Encoding'', [])]"
  by (simp add: propfind_hook_def header_Add_def Let_def)

lemma copymove_hook_Header:
  "Header (copymove_hook E c newpath overwrite rq)
     = Header rq @ [(''Destination'', PathEscape E (Join E (root c) newpath)),
                    (''Overwrite'', if overwrite then ''T'' else ''F'')]"
  by (simp add: copymove_hook_def header_Add_def Let_def)

lemma close_data_Some: "close_data (Some (b, d)) c = close_body b c"
  by (simp add: close_data_def)

lemmas script_run =
  dispatch_def rewind_def NewRequest_def send_def hooks_def add_headers_def header_Add_def
  script_env_def script_client_def script_Do_def script_Authorize_def reply_def Let_def

section \<open>At most one authentication upgrade\<close>

text \<open>
  Claim C2. However a call of \<open>req\<close> ends, it has dispatched at most two requests,
  and the client's authenticator is the one it was or has changed from the anonymous one
  to one that is not anonymous. When the snapshot of the authenticator is not anonymous,
  the call dispatches at most one request, keeps the authenticator, and a 401 is the
  terminal error \<open>Authorize\<close>. When the snapshot is anonymous and the 401 carries
  a recognised challenge, the authenticator is replaced by one that is not anonymous, the
  result is that of one further call of \<open>req\<close> with it, that call dispatches at
  most one request, and a 401 on it is terminal.
\<close>

theorem req_at_most_one_upgrade:
  assumes "req E c method path body intercept = (res, body', c')"
  shows "length (sent (httpc c')) \<le> length (sent (httpc c)) + 2
       \<and> (auth c' = auth c
           \<or> auth_Type (auth c) = ''NoAuth'' \<and> auth_Type (auth c') \<noteq> ''NoAuth'')
       \<and> (auth_Type (auth c) \<noteq> ''NoAuth'' \<longrightarrow>
            length (sent (httpc c')) \<le> length (sent (httpc c)) + 1 \<and> auth c' = auth c
            \<and> (\<forall>rs got b c1.
                  dispatch E c method path body intercept = Inr (rs, got, b, c1)
                  \<and> StatusCode rs = 401 \<longrightarrow>
                  res = (Some rs, Some (PathError ''Authorize'' (root c) 401)) \<and> c' = c1))
       \<and> (\<forall>rs got b c1 a'.
            auth_Type (auth c) = ''NoAuth''
            \<and> dispatch E c method path body intercept = Inr (rs, got, b, c1)
            \<and> StatusCode rs = 401 \<and> upgrade E (auth c) rs = Some a' \<longrightarrow>
            auth_Type a' \<noteq> ''NoAuth'' \<and> auth c' = a'
            \<and> fst (req E (c1\<lparr>auth := a'\<rparr>) method path (retryBuf b got) intercept) = res
            \<and> snd (snd (req E (c1\<lparr>auth := a'\<rparr>) method path (retryBuf b got) intercept)) = c'
            \<and> length (sent (httpc c')) \<le> length (sent (httpc c1)) + 1
            \<and> (\<forall>rs2 got2 b2 c2.
                  dispatch E (c1\<lparr>auth := a'\<rparr>) method path (retryBuf b got) intercept
                    = Inr (rs2, got2, b2, c2)
                  \<and> StatusCode rs2 = 401 \<longrightarrow>
                  res = (Some rs2, Some (PathError ''Authorize'' (root c) 401)) \<and> c' = c2))"
proof -
  have single: "length (sent (httpc c'')) \<le> length (sent (httpc k)) + 1 \<and> auth c'' = auth k
        \<and> (\<forall>rs got b c1.
              dispatch E k method path bd intercept = Inr (rs, got, b, c1)
              \<and> StatusCode rs = 401 \<longrightarrow>
              r = (Some rs, Some (PathError ''Authorize'' (root k) 401)) \<and> c'' = c1)"
    if "auth_Type (auth k) \<noteq> ''NoAuth''" and "req E k method path bd intercept = (r, bd', c'')"
    for k bd r bd' c''
  proof (cases "dispatch E k method path bd intercept")
    case (Inl x)
    obtain e b1 c1 where "x = (e, b1, c1)" by (cases x) auto
    with Inl that dispatch_Inl_sent [of E k "method" path bd intercept e b1 c1]
    show ?thesis by (simp add: req_authenticated)
  next
    case (Inr y)
    obtain rs got b c1 where y: "y = (rs, got, b, c1)" by (cases y) auto
    from dispatch_sent [OF Inr [unfolded y]] dispatch_fields [OF Inr [unfolded y]]
    show ?thesis using that Inr y by (auto simp: req_authenticated split: if_splits)
  qed
  show ?thesis
  proof (cases "auth_Type (auth c) = ''NoAuth''")
    case False
    with single [OF False assms] show ?thesis by auto
  next
    case True
    show ?thesis
    proof (cases "dispatch E c method path body intercept")
      case (Inl x)
      obtain e b1 c1 where "x = (e, b1, c1)" by (cases x) auto
      with Inl assms True dispatch_Inl_sent [of E c "method" path body intercept e b1 c1]
      show ?thesis by (subst (asm) req.simps) auto
    next
      case (Inr y)
      obtain rs got b c1 where y: "y = (rs, got, b, c1)" by (cases y) auto
      note d = Inr [unfolded y]
      from dispatch_sent [OF d] have s1: "length (sent (httpc c1)) = length (sent (httpc c)) + 1"
        by auto
      note f = dispatch_fields [OF d]
      show ?thesis
      proof (cases "StatusCode rs = 401 \<and> upgrade E (auth c) rs \<noteq> None")
        case False
        with assms True d s1 f show ?thesis
          by (subst (asm) req.simps) (auto split: if_splits)
      next
        case u: True
        then obtain a' where a': "upgrade E (auth c) rs = Some a'" by auto
        let ?k = "c1\<lparr>auth := a'\<rparr>"
        have na: "auth_Type (auth ?k) \<noteq> ''NoAuth''"
          using upgrade_not_NoAuth [OF a'] by simp
        obtain r2 b3 c3 where r2: "req E ?k method path (retryBuf b got) intercept = (r2, b3, c3)"
          by (cases "req E ?k method path (retryBuf b got) intercept") auto
        have res: "res = r2" "c' = c3"
          using assms True d u a' r2 by (subst (asm) req.simps, simp)+
        from single [OF na r2] res s1 f r2 True d a' na show ?thesis by auto
      qed
    qed
  qed
qed

theorem req_at_most_one_upgrade_witness:
  "auth_Type (auth (script_client (NoAuth ''u'' ''p'')
       [reply 401 ''Digest realm=x, nonce=y'' 0, reply 401 [] 0])) = ''NoAuth''
   \<and> upgrade script_env (NoAuth ''u'' ''p'')
        \<lparr>StatusCode = 401, RespHeader = [(''Www-Authenticate'', ''Digest realm=x, nonce=y'')],
         Body = 0, BodyData = []\<rparr> = Some (DigestAuth ''u'' ''p'' [])
   \<and> auth (snd (snd (req script_env (script_client (NoAuth ''u'' ''p'')
          [reply 401 ''Digest realm=x, nonce=y'' 0, reply 401 [] 0]) ''PUT'' ''f'' None None)))
      = DigestAuth ''u'' ''p'' []
   \<and> fst (req script_env (script_client (NoAuth ''u'' ''p'')
          [reply 401 ''Digest realm=x, nonce=y'' 0, reply 401 [] 0]) ''PUT'' ''f'' None None)
      = (Some \<lparr>StatusCode = 401, RespHeader = [], Body = 1, BodyData = []\<rparr>,
         Some (PathError ''Authorize'' ''/dav/'' 401))
   \<and> length (sent (httpc (snd (snd (req script_env (script_client (NoAuth ''u'' ''p'')
          [reply 401 ''Digest realm=x, nonce=y'' 0, reply 401 [] 0]) ''PUT'' ''f'' None None)))))
      \<le> 2
   \<and> map (Header \<circ> a_request)
        (sent (httpc (snd (snd (req script_env (script_client (NoAuth ''u'' ''p'')
          [reply 401 ''Digest realm=x, nonce=y'' 0, reply 401 [] 0]) ''PUT'' ''f'' None None)))))
      = [[], [(''Authorization'', ''DigestAuth'')]]"
proof -
  let ?c = "script_client (NoAuth ''u'' ''p'')
              [reply 401 ''Digest realm=x, nonce=y'' 0, reply 401 [] 0]"
  let ?R = "req script_env ?c ''PUT'' ''f'' None None"
  let ?rs = "\<lparr>StatusCode = 401,
               RespHeader = [(''Www-Authenticate'', ''Digest realm=x, nonce=y'')],
               Body = 0, BodyData = []\<rparr>"
  let ?c1 = "(script_client (NoAuth ''u'' ''p'') [reply 401 [] 0])
           \<lparr>httpc := \<lparr>server = [reply 401 [] 0],
              sent = [\<lparr>a_request = \<lparr>Method = ''PUT'', URL = ''/dav/f'', Header = []\<rparr>,
                       a_body = None, a_read = []\<rparr>],
              closed = [], logged = []\<rparr>\<rparr>"
  let ?a = "DigestAuth ''u'' ''p'' []"
  let ?rs2 = "\<lparr>StatusCode = 401, RespHeader = [], Body = 1, BodyData = []\<rparr>"
  let ?c2 = "(script_client ?a [])
           \<lparr>httpc := \<lparr>server = [],
              sent = [\<lparr>a_request = \<lparr>Method = ''PUT'', URL = ''/dav/f'', Header = []\<rparr>,
                       a_body = None, a_read = []\<rparr>,
                      \<lparr>a_request = \<lparr>Method = ''PUT'', URL = ''/dav/f'',
                          Header = [(''Authorization'', ''DigestAuth'')]\<rparr>,
                       a_body = None, a_read = []\<rparr>],
              closed = [], logged = []\<rparr>\<rparr>"
  have a: "auth_Type (auth ?c) = ''NoAuth''" by (simp add: script_client_def)
  have d: "dispatch script_env ?c ''PUT'' ''f'' None None = Inr (?rs, [], None, ?c1)"
    by (simp add: script_run)
  have s: "StatusCode ?rs = 401" by simp
  have u: "upgrade script_env (NoAuth ''u'' ''p'') ?rs = Some ?a" by code_simp
  have u': "upgrade script_env (auth ?c) ?rs = Some ?a"
    using u by (simp add: script_client_def)
  have d2: "dispatch script_env (?c1\<lparr>auth := ?a\<rparr>) ''PUT'' ''f'' (retryBuf None []) None
              = Inr (?rs2, [], None, ?c2)"
    by (simp add: script_run retryBuf_def)
  have r: "?R = (fst ?R, fst (snd ?R), snd (snd ?R))" by simp
  have l: "length (sent (httpc ?c)) = 0" by (simp add: script_client_def)
  have rt: "root ?c = ''/dav/''" by (simp add: script_client_def)
  have s2: "StatusCode ?rs2 = 401" by simp
  note T = req_at_most_one_upgrade [OF r]
  note T3 = T [THEN conjunct2, THEN conjunct2, THEN conjunct2, rule_format,
               OF conjI [OF a conjI [OF d conjI [OF s u']]]]
  note T4 = T3 [THEN conjunct2, THEN conjunct2, THEN conjunct2, THEN conjunct2,
                THEN conjunct2, rule_format, OF conjI [OF d2 s2]]
  have "auth (snd (snd ?R)) = ?a" using T3 by blast
  moreover have "fst ?R = (Some ?rs2, Some (PathError ''Authorize'' ''/dav/'' 401))"
    using T4 rt by simp
  moreover have "length (sent (httpc (snd (snd ?R)))) \<le> 2"
    using T [THEN conjunct1] l by simp
  moreover have "map (Header \<circ> a_request) (sent (httpc (snd (snd ?R))))
                   = [[], [(''Authorization'', ''DigestAuth'')]]"
    by code_simp
  ultimately
  show ?thesis using a u by simp
qed

section \<open>An unrecognised challenge\<close>

text \<open>
  Claim C6. An anonymous attempt that gets a 401 whose \<open>Www-Authenticate\<close> header,
  in lower case, contains neither \<open>digest\<close> nor \<open>basic\<close> ends the call at once:
  the result is the response with the error \<open>Authorize\<close> carrying the status of the
  response, exactly one request has been dispatched, and the authenticator is unchanged.
\<close>

theorem unrecognised_challenge_is_terminal:
  assumes "auth_Type (auth c) = ''NoAuth''"
    and "dispatch E c method path body intercept = Inr (rs, got, body2, c1)"
    and "StatusCode rs = 401"
    and "\<not> sublist ''digest'' (ToLower E (header_Get (RespHeader rs) ''Www-Authenticate''))"
    and "\<not> sublist ''basic'' (ToLower E (header_Get (RespHeader rs) ''Www-Authenticate''))"
  shows "req E c method path body intercept
           = ((Some rs, Some (PathError ''Authorize'' (root c) (StatusCode rs))), body2, c1)
         \<and> length (sent (httpc c1)) = length (sent (httpc c)) + 1
         \<and> auth c1 = auth c"
proof -
  have u: "upgrade E (auth c) rs = None"
    using assms(4,5) by (simp add: upgrade_None_iff)
  have r: "req E c method path body intercept
           = ((Some rs, Some (PathError ''Authorize'' (root c) (StatusCode rs))), body2, c1)"
    using assms(1,2,3) u by (subst req.simps) simp
  from dispatch_sent [OF assms(2)] have "length (sent (httpc c1)) = length (sent (httpc c)) + 1"
    by auto
  with r dispatch_fields [OF assms(2)] show ?thesis by simp
qed

theorem unrecognised_challenge_is_terminal_witness:
  "auth_Type (auth (script_client (NoAuth ''u'' ''p'') [reply 401 ''Negotiate'' 0])) = ''NoAuth''
   \<and> \<not> sublist ''digest'' (ascii_ToLower ''Negotiate'') \<and> \<not> sublist ''basic'' (ascii_ToLower ''Negotiate'')
   \<and> req script_env (script_client (NoAuth ''u'' ''p'') [reply 401 ''Negotiate'' 0])
        ''MKCOL'' ''x'' None None
      = ((Some \<lparr>StatusCode = 401, RespHeader = [(''Www-Authenticate'', ''Negotiate'')],
                Body = 0, BodyData = []\<rparr>,
          Some (PathError ''Authorize'' ''/dav/'' 401)), None,
         (script_client (NoAuth ''u'' ''p'') [])
           \<lparr>httpc := \<lparr>server = [],
              sent = [\<lparr>a_request = \<lparr>Method = ''MKCOL'', URL = ''/dav/x'', Header = []\<rparr>,
                       a_body = None, a_read = []\<rparr>],
              closed = [], logged = []\<rparr>\<rparr>)"
proof -
  let ?c = "script_client (NoAuth ''u'' ''p'') [reply 401 ''Negotiate'' 0]"
  let ?rs = "\<lparr>StatusCode = 401, RespHeader = [(''Www-Authenticate'', ''Negotiate'')],
              Body = 0, BodyData = []\<rparr>"
  let ?c1 = "(script_client (NoAuth ''u'' ''p'') [])
           \<lparr>httpc := \<lparr>server = [],
              sent = [\<lparr>a_request = \<lparr>Method = ''MKCOL'', URL = ''/dav/x'', Header = []\<rparr>,
                       a_body = None, a_read = []\<rparr>],
              closed = [], logged = []\<rparr>\<rparr>"
  have a: "auth_Type (auth ?c) = ''NoAuth''" by (simp add: script_client_def)
  have d: "dispatch script_env ?c ''MKCOL'' ''x'' None None = Inr (?rs, [], None, ?c1)"
    by (simp add: script_run)
  have s: "StatusCode ?rs = 401" by simp
  have h: "header_Get (RespHeader ?rs) ''Www-Authenticate'' = ''Negotiate''"
    by (simp add: header_Get_def)
  have n1: "\<not> sublist ''digest'' (ToLower script_env (header_Get (RespHeader ?rs) ''Www-Authenticate''))"
    by code_simp
  have n2: "\<not> sublist ''basic'' (ToLower script_env (header_Get (RespHeader ?rs) ''Www-Authenticate''))"
    by code_simp
  from unrecognised_challenge_is_terminal [OF a d s n1 n2] a n1 n2
  show ?thesis by (simp add: script_client_def script_env_def header_Get_def)
qed

section \<open>The error of a terminal 401\<close>

text \<open>
  Claim C10. In both terminal 401 cases (an anonymous attempt whose challenge is not
  recognised, and any attempt that is not anonymous) \<open>req\<close> returns the 401 response
  itself together with the error \<open>Authorize\<close>, whose path is the client's root,
  whatever the path of the request was.
\<close>

theorem terminal_401_reports_root:
  assumes "dispatch E c method path body intercept = Inr (rs, got, body2, c1)"
    and "StatusCode rs = 401"
    and "auth_Type (auth c) = ''NoAuth'' \<longrightarrow> upgrade E (auth c) rs = None"
  shows "req E c method path body intercept
           = ((Some rs, Some (PathError ''Authorize'' (root c) 401)), body2, c1)"
  using assms by (subst req.simps) auto

theorem terminal_401_reports_root_witness:
  "dispatch script_env (script_client (BasicAuth ''u'' ''p'') [reply 401 [] 0])
       ''MKCOL'' ''x'' None None
     = Inr (\<lparr>StatusCode = 401, RespHeader = [], Body = 0, BodyData = []\<rparr>, [], None,
            (script_client (BasicAuth ''u'' ''p'') [])
              \<lparr>httpc := \<lparr>server = [],
                 sent = [\<lparr>a_request = \<lparr>Method = ''MKCOL'', URL = ''/dav/x'',
                            Header = [(''Authorization'', ''BasicAuth'')]\<rparr>,
                          a_body = None, a_read = []\<rparr>],
                 closed = [], logged = []\<rparr>\<rparr>)
   \<and> req script_env (script_client (BasicAuth ''u'' ''p'') [reply 401 [] 0])
       ''MKCOL'' ''x'' None None
     = ((Some \<lparr>StatusCode = 401, RespHeader = [], Body = 0, BodyData = []\<rparr>,
         Some (PathError ''Authorize'' ''/dav/'' 401)), None,
        (script_client (BasicAuth ''u'' ''p'') [])
              \<lparr>httpc := \<lparr>server = [],
                 sent = [\<lparr>a_request = \<lparr>Method = ''MKCOL'', URL = ''/dav/x'',
                            Header = [(''Authorization'', ''BasicAuth'')]\<rparr>,
                          a_body = None, a_read = []\<rparr>],
                 closed = [], logged = []\<rparr>\<rparr>)"
proof -
  let ?c = "script_client (BasicAuth ''u'' ''p'') [reply 401 [] 0]"
  let ?rs = "\<lparr>StatusCode = 401, RespHeader = [], Body = 0, BodyData = []\<rparr>"
  let ?c1 = "(script_client (BasicAuth ''u'' ''p'') [])
              \<lparr>httpc := \<lparr>server = [],
                 sent = [\<lparr>a_request = \<lparr>Method = ''MKCOL'', URL = ''/dav/x'',
                            Header = [(''Authorization'', ''BasicAuth'')]\<rparr>,
                          a_body = None, a_read = []\<rparr>],
                 closed = [], logged = []\<rparr>\<rparr>"
  have d: "dispatch script_env ?c ''MKCOL'' ''x'' None None = Inr (?rs, [], None, ?c1)"
    by (simp add: script_run)
  have s: "StatusCode ?rs = 401" by simp
  have u: "auth_Type (auth ?c) = ''NoAuth'' \<longrightarrow> upgrade script_env (auth ?c) ?rs = None"
    by (simp add: script_client_def)
  from terminal_401_reports_root [OF d s u] d show ?thesis
    by (simp add: script_client_def)
qed

section \<open>Replaying a body that cannot seek\<close>

text \<open>
  Claim C3. The code does not replay the body when the transport stops reading early.
  A stream of three bytes is sent by an anonymous client; the server answers 401 with a
  Basic challenge when the transport has read one byte, then 201. The stream is left with
  two bytes unread, the retry uploads the one byte that was read, and \<open>req\<close> reports
  201. With the same answers a body that can seek offers the retry all three bytes. When
  the transport has read nothing before the 401, \<open>put\<close> uploads an empty body and
  reports 201.
\<close>

theorem stream_not_read_to_its_end:
  "fst (snd (req script_env
               (script_client (NoAuth ''u'' ''p'') [reply 401 ''Basic realm=x'' 1, reply 201 [] 3])
               ''PUT'' ''f'' (Some (Stream ''abc'' 0)) None)) = Some (Stream ''abc'' 1)
   \<and> unread (Stream ''abc'' 1) = ''bc''
   \<and> map a_body (sent (httpc (snd (snd (req script_env
               (script_client (NoAuth ''u'' ''p'') [reply 401 ''Basic realm=x'' 1, reply 201 [] 3])
               ''PUT'' ''f'' (Some (Stream ''abc'' 0)) None)))))
       = [Some (Stream ''abc'' 0), Some (Buffer ''a'')]
   \<and> fst (req script_env
               (script_client (NoAuth ''u'' ''p'') [reply 401 ''Basic realm=x'' 1, reply 201 [] 3])
               ''PUT'' ''f'' (Some (Stream ''abc'' 0)) None)
       = (Some \<lparr>StatusCode = 201, RespHeader = [], Body = 1, BodyData = []\<rparr>, None)
   \<and> map a_read (sent (httpc (snd (snd (req script_env
               (script_client (NoAuth ''u'' ''p'') [reply 401 ''Basic realm=x'' 1, reply 201 [] 3])
               ''PUT'' ''f'' (Some (Stream ''abc'' 0)) None)))))
       = [''a'', ''a'']
   \<and> map a_read (sent (httpc (snd (snd (req script_env
               (script_client (NoAuth ''u'' ''p'') [reply 401 ''Basic realm=x'' 1, reply 201 [] 3])
               ''PUT'' ''f'' (Some (Seeker ''abc'' 0 [])) None)))))
       = [''a'', ''abc'']
   \<and> fst (put script_env
               (script_client (NoAuth ''u'' ''p'') [reply 401 ''Basic realm=x'' 0, reply 201 [] 3])
               ''f'' (Some (Stream ''abc'' 0)))
       = (201, None)
   \<and> map a_read (sent (httpc (snd (snd (put script_env
               (script_client (NoAuth ''u'' ''p'') [reply 401 ''Basic realm=x'' 0, reply 201 [] 3])
               ''f'' (Some (Stream ''abc'' 0))))))) = [[], []]"
  by code_simp

text \<open>
  What the tee reader does give: for a body that is not nil and cannot seek, either no
  request is dispatched and the body is untouched, or the body is handed to exactly one
  attempt, the first: that attempt reads a prefix of its unread bytes, the body is left
  advanced by exactly that prefix, and every later attempt of the call (there is at most
  one) reads from a buffer that holds exactly the bytes the first attempt read.
\<close>

lemma stream_body_replay:
  assumes "\<not> is_Seeker b"
    and "req E c method path (Some b) intercept = (res, body', c')"
  shows "(sent (httpc c') = sent (httpc c) \<and> body' = Some b)
       \<or> (\<exists>first rest.
            sent (httpc c') = sent (httpc c) @ first # rest
            \<and> a_body first = Some b
            \<and> prefix (a_read first) (unread b)
            \<and> body' = Some (advance (length (a_read first)) b)
            \<and> length rest \<le> 1
            \<and> (\<forall>a\<in>set rest. a_body a = Some (Buffer (a_read first)))
            \<and> (a_read first = unread b \<longrightarrow>
                  unread (advance (length (a_read first)) b) = []))"
proof -
  from req_trace [OF assms(2)] obtain new1 body2 c1 where
    o1: "one_attempt c method intercept (Some b) c1 body2 new1"
    and r: "c' = c1 \<and> body' = body2
            \<or> (\<exists>a' new2 body3.
                  new1 \<noteq> [] \<and> auth_Type (auth c) = ''NoAuth''
                  \<and> one_attempt (c1\<lparr>auth := a'\<rparr>) method intercept
                       (retryBuf body2 (a_read (hd new1))) c' body3 new2
                  \<and> body' = after_retry body2 body3)"
    by blast
  note rw = rewind_not_Seeker [OF assms(1)]
  from o1 rw have s1: "sent (httpc c1) = sent (httpc c) @ new1"
    and n1: "new1 = [] \<and> body2 = Some b
             \<or> (\<exists>a. new1 = [a] \<and> a_body a = Some b \<and> prefix (a_read a) (unread b)
                   \<and> body2 = Some (advance (length (a_read a)) b))"
    by (auto simp: one_attempt_def)
  from r show ?thesis
  proof
    assume "c' = c1 \<and> body' = body2"
    with s1 n1 show ?thesis by (auto simp: unread_advance_all)
  next
    assume "\<exists>a' new2 body3.
                  new1 \<noteq> [] \<and> auth_Type (auth c) = ''NoAuth''
                  \<and> one_attempt (c1\<lparr>auth := a'\<rparr>) method intercept
                       (retryBuf body2 (a_read (hd new1))) c' body3 new2
                  \<and> body' = after_retry body2 body3"
    then obtain a' new2 body3 where ne: "new1 \<noteq> []"
      and o2: "one_attempt (c1\<lparr>auth := a'\<rparr>) method intercept
                       (retryBuf body2 (a_read (hd new1))) c' body3 new2"
      and b': "body' = after_retry body2 body3" by blast
    from n1 ne obtain a where a: "new1 = [a]" "a_body a = Some b"
      "prefix (a_read a) (unread b)" "body2 = Some (advance (length (a_read a)) b)" by auto
    have rb: "retryBuf body2 (a_read (hd new1)) = Some (Buffer (a_read a))"
      using a assms(1) by (simp add: retryBuf_def advance_not_Seeker)
    have b2: "body' = body2"
      using b' a assms(1) by (simp add: after_retry_def advance_not_Seeker)
    from o2 rb have s2: "sent (httpc c') = sent (httpc c1) @ new2"
      and n2: "length new2 \<le> 1" "\<forall>x\<in>set new2. a_body x = Some (Buffer (a_read a))"
      by (auto simp: one_attempt_def rewind_def)
    have "sent (httpc c') = sent (httpc c) @ a # new2"
      using s1 s2 a by simp
    with a b2 n2 show ?thesis by (auto simp: unread_advance_all)
  qed
qed

section \<open>Rewinding a body that can seek\<close>

lemma rewind_Seeker:
  assumes "rewind (Some (Seeker d p s)) = (e, body1)"
  shows "(e = None \<longrightarrow> (\<exists>s'. body1 = Some (Seeker d 0 s')))
         \<and> (\<exists>p' s'. body1 = Some (Seeker d p' s'))
         \<and> e = fst (Seek_start (Seeker d p s))"
  using assms
  by (cases "(Seeker d p s)" rule: Seek_start.cases) (auto simp: rewind_def)

lemma seekable_attempts_at_start:
  assumes "req E c method path (Some (Seeker d p s)) intercept = (res, body', c')"
  shows "(\<forall>a\<in>set (drop (length (sent (httpc c))) (sent (httpc c'))).
            \<exists>s'. a_body a = Some (Seeker d 0 s'))
       \<and> (\<exists>p' s'. body' = Some (Seeker d p' s'))
       \<and> (\<forall>e. fst (Seek_start (Seeker d p s)) = Some e \<longrightarrow>
             res = (None, Some e) \<and> c' = c)"
proof -
  from req_trace [OF assms] obtain new1 body2 c1 where
    o1: "one_attempt c method intercept (Some (Seeker d p s)) c1 body2 new1"
    and r: "c' = c1 \<and> body' = body2
            \<or> (\<exists>a' new2 body3.
                  new1 \<noteq> [] \<and> auth_Type (auth c) = ''NoAuth''
                  \<and> one_attempt (c1\<lparr>auth := a'\<rparr>) method intercept
                       (retryBuf body2 (a_read (hd new1))) c' body3 new2
                  \<and> body' = after_retry body2 body3)"
    by blast
  have fail: "res = (None, Some e) \<and> c' = c"
    if "fst (Seek_start (Seeker d p s)) = Some e" for e
  proof -
    have "rewind (Some (Seeker d p s)) = (Some e, Some (snd (Seek_start (Seeker d p s))))"
      using that by (cases "Seek_start (Seeker d p s)") (simp add: rewind_def)
    then have "dispatch E c method path (Some (Seeker d p s)) intercept
                 = Inl (e, Some (snd (Seek_start (Seeker d p s))), c)"
      by (simp add: dispatch_def)
    with assms show ?thesis by (simp add: req_unrolled)
  qed
  from o1 have s1: "sent (httpc c1) = sent (httpc c) @ new1"
    and n1: "\<forall>a\<in>set new1. \<exists>s'. a_body a = Some (Seeker d 0 s')"
    and b2: "\<exists>p' s'. body2 = Some (Seeker d p' s')"
    using rewind_Seeker [of d p s]
    by (auto simp: one_attempt_def) 
  from r show ?thesis
  proof
    assume "c' = c1 \<and> body' = body2"
    with s1 n1 b2 fail show ?thesis by auto
  next
    assume "\<exists>a' new2 body3.
                  new1 \<noteq> [] \<and> auth_Type (auth c) = ''NoAuth''
                  \<and> one_attempt (c1\<lparr>auth := a'\<rparr>) method intercept
                       (retryBuf body2 (a_read (hd new1))) c' body3 new2
                  \<and> body' = after_retry body2 body3"
    then obtain a' new2 body3 where
      o2: "one_attempt (c1\<lparr>auth := a'\<rparr>) method intercept
                       (retryBuf body2 (a_read (hd new1))) c' body3 new2"
      and b': "body' = after_retry body2 body3" by blast
    from b2 obtain p2 s2 where p2: "body2 = Some (Seeker d p2 s2)" by blast
    then have rb: "retryBuf body2 (a_read (hd new1)) = Some (Seeker d p2 s2)"
      by (simp add: retryBuf_def)
    from o2 have s2: "sent (httpc c') = sent (httpc c1) @ new2"
      and n2: "\<forall>a\<in>set new2. \<exists>s'. a_body a = Some (Seeker d 0 s')"
      and b3: "\<exists>p' s'. body3 = Some (Seeker d p' s')"
      using rewind_Seeker [of d p2 s2] unfolding rb
      by (auto simp: one_attempt_def)
    have "body' = body3" using b' p2 by (simp add: after_retry_def)
    with s1 s2 n1 n2 b3 fail show ?thesis by auto
  qed
qed

lemma rewind_is_Seeker:
  "is_Seeker b \<Longrightarrow> rewind (Some b) = (fst (Seek_start b), Some (snd (Seek_start b)))"
  by (simp add: rewind_def split: prod.splits)

lemma Seek_start_is_Seeker: "is_Seeker (snd (Seek_start b)) = is_Seeker b"
  by (cases b rule: Seek_start.cases) auto

lemma seekable_chain:
  assumes "is_Seeker b0"
    and "req E c method path (Some b0) intercept = (res, body', c')"
  shows "sent (httpc c') = sent (httpc c) \<and> body' = Some (snd (Seek_start b0))
       \<or> (\<exists>first.
             sent (httpc c') = sent (httpc c) @ [first]
             \<and> fst (Seek_start b0) = None
             \<and> a_body first = Some (snd (Seek_start b0))
             \<and> (body' = Some (advance (length (a_read first)) (snd (Seek_start b0)))
                \<or> body' = Some (snd (Seek_start
                                      (advance (length (a_read first)) (snd (Seek_start b0)))))))
       \<or> (\<exists>first second.
             sent (httpc c') = sent (httpc c) @ [first, second]
             \<and> fst (Seek_start b0) = None
             \<and> a_body first = Some (snd (Seek_start b0))
             \<and> fst (Seek_start (advance (length (a_read first)) (snd (Seek_start b0)))) = None
             \<and> a_body second
                 = Some (snd (Seek_start (advance (length (a_read first)) (snd (Seek_start b0)))))
             \<and> body' = Some (advance (length (a_read second))
                               (snd (Seek_start
                                      (advance (length (a_read first)) (snd (Seek_start b0)))))))"
proof -
  let ?b1 = "snd (Seek_start b0)"
  from req_trace [OF assms(2)] obtain new1 body2 c1 where
    o1: "one_attempt c method intercept (Some b0) c1 body2 new1"
    and r: "c' = c1 \<and> body' = body2
            \<or> (\<exists>a' new2 body3.
                  new1 \<noteq> [] \<and> auth_Type (auth c) = ''NoAuth''
                  \<and> one_attempt (c1\<lparr>auth := a'\<rparr>) method intercept
                       (retryBuf body2 (a_read (hd new1))) c' body3 new2
                  \<and> body' = after_retry body2 body3)"
    by blast
  note rw = rewind_is_Seeker [OF assms(1)]
  from o1 rw have s1: "sent (httpc c1) = sent (httpc c) @ new1"
    and n1: "new1 = [] \<and> body2 = Some ?b1
             \<or> (\<exists>a. new1 = [a] \<and> fst (Seek_start b0) = None \<and> a_body a = Some ?b1
                   \<and> body2 = Some (advance (length (a_read a)) ?b1))"
    by (auto simp: one_attempt_def)
  from r show ?thesis
  proof
    assume "c' = c1 \<and> body' = body2"
    with s1 n1 show ?thesis by auto
  next
    assume "\<exists>a' new2 body3.
                  new1 \<noteq> [] \<and> auth_Type (auth c) = ''NoAuth''
                  \<and> one_attempt (c1\<lparr>auth := a'\<rparr>) method intercept
                       (retryBuf body2 (a_read (hd new1))) c' body3 new2
                  \<and> body' = after_retry body2 body3"
    then obtain a' new2 body3 where ne: "new1 \<noteq> []"
      and o2: "one_attempt (c1\<lparr>auth := a'\<rparr>) method intercept
                       (retryBuf body2 (a_read (hd new1))) c' body3 new2"
      and b': "body' = after_retry body2 body3" by blast
    from n1 ne obtain a where a: "new1 = [a]" "fst (Seek_start b0) = None"
      "a_body a = Some ?b1" "body2 = Some (advance (length (a_read a)) ?b1)" by auto
    let ?b2 = "advance (length (a_read a)) ?b1"
    have sk: "is_Seeker ?b2"
      using assms(1) by (simp add: advance_not_Seeker Seek_start_is_Seeker)
    have rb: "retryBuf body2 (a_read (hd new1)) = Some ?b2"
      using a sk by (simp add: retryBuf_def)
    have b3: "body' = body3" using b' a sk by (simp add: after_retry_def)
    note rw2 = rewind_is_Seeker [OF sk]
    from o2 rb rw2 have s2: "sent (httpc c') = sent (httpc c1) @ new2"
      and n2: "new2 = [] \<and> body3 = Some (snd (Seek_start ?b2))
               \<or> (\<exists>x. new2 = [x] \<and> fst (Seek_start ?b2) = None
                     \<and> a_body x = Some (snd (Seek_start ?b2))
                     \<and> body3 = Some (advance (length (a_read x)) (snd (Seek_start ?b2))))"
      by (auto simp: one_attempt_def)
    from n2 show ?thesis
    proof
      assume "new2 = [] \<and> body3 = Some (snd (Seek_start ?b2))"
      with s1 s2 a b3 have "sent (httpc c') = sent (httpc c) @ [a]
             \<and> fst (Seek_start b0) = None
             \<and> a_body a = Some ?b1
             \<and> (body' = Some ?b2 \<or> body' = Some (snd (Seek_start ?b2)))" by simp
      then show ?thesis by blast
    next
      assume "\<exists>x. new2 = [x] \<and> fst (Seek_start ?b2) = None
                     \<and> a_body x = Some (snd (Seek_start ?b2))
                     \<and> body3 = Some (advance (length (a_read x)) (snd (Seek_start ?b2)))"
      then obtain x where x: "new2 = [x]" "fst (Seek_start ?b2) = None"
        "a_body x = Some (snd (Seek_start ?b2))"
        "body3 = Some (advance (length (a_read x)) (snd (Seek_start ?b2)))" by blast
      with s1 s2 a b3 have "sent (httpc c') = sent (httpc c) @ [a, x]
             \<and> fst (Seek_start b0) = None
             \<and> a_body a = Some ?b1
             \<and> fst (Seek_start ?b2) = None
             \<and> a_body x = Some (snd (Seek_start ?b2))
             \<and> body' = Some (advance (length (a_read x)) (snd (Seek_start ?b2)))" by simp
      then show ?thesis by blast
    qed
  qed
qed

text \<open>
  Claim C7. For a body that can seek, every attempt of the call is handed that reader
  with its cursor at offset 0. The first attempt gets the caller's reader as
  \<open>Seek\<close> leaves it; a retry gets the reader in the state in which the first attempt
  left it, rewound by a second \<open>Seek\<close>, so the same object is used again: its data,
  and what is left of the outcomes of its calls of \<open>Seek\<close>, carry over, and the reader
  the caller gets back is the one the last attempt (or the last \<open>Seek\<close>) left. When
  the first \<open>Seek\<close> fails, the call returns that error with no response and the
  client is unchanged: nothing was dispatched.
\<close>

theorem seekable_body_rewound:
  assumes "req E c method path (Some (Seeker d p s)) intercept = (res, body', c')"
  shows "(\<forall>a\<in>set (drop (length (sent (httpc c))) (sent (httpc c'))).
            \<exists>s'. a_body a = Some (Seeker d 0 s'))
       \<and> (\<exists>p' s'. body' = Some (Seeker d p' s'))
       \<and> (\<forall>e. fst (Seek_start (Seeker d p s)) = Some e \<longrightarrow>
             res = (None, Some e) \<and> c' = c)
       \<and> (sent (httpc c') = sent (httpc c)
             \<and> body' = Some (snd (Seek_start (Seeker d p s)))
           \<or> (\<exists>first.
                 sent (httpc c') = sent (httpc c) @ [first]
                 \<and> fst (Seek_start (Seeker d p s)) = None
                 \<and> a_body first = Some (snd (Seek_start (Seeker d p s)))
                 \<and> (body' = Some (advance (length (a_read first))
                                    (snd (Seek_start (Seeker d p s))))
                    \<or> body' = Some (snd (Seek_start
                                 (advance (length (a_read first))
                                    (snd (Seek_start (Seeker d p s))))))))
           \<or> (\<exists>first second.
                 sent (httpc c') = sent (httpc c) @ [first, second]
                 \<and> fst (Seek_start (Seeker d p s)) = None
                 \<and> a_body first = Some (snd (Seek_start (Seeker d p s)))
                 \<and> fst (Seek_start (advance (length (a_read first))
                                      (snd (Seek_start (Seeker d p s))))) = None
                 \<and> a_body second
                     = Some (snd (Seek_start (advance (length (a_read first))
                                                (snd (Seek_start (Seeker d p s))))))
                 \<and> body' = Some (advance (length (a_read second))
                                   (snd (Seek_start
                                          (advance (length (a_read first))
                                             (snd (Seek_start (Seeker d p s)))))))))"
proof -
  have "is_Seeker (Seeker d p s)" by simp
  note B = seekable_chain [OF this assms]
  note A = seekable_attempts_at_start [OF assms]
  show ?thesis
    by (intro conjI)
       (rule A [THEN conjunct1], rule A [THEN conjunct2, THEN conjunct1],
        rule A [THEN conjunct2, THEN conjunct2], rule B)
qed

theorem seekable_body_rewound_witness:
  "map a_body (sent (httpc (snd (snd (req script_env
       (script_client (NoAuth ''u'' ''p'') [reply 401 ''Basic realm=x'' 3, reply 201 [] 3])
       ''PUT'' ''f''
       (Some (Seeker ''abc'' 2 [None, None, Some (OtherError ''closed'')])) None)))))
     = [Some (Seeker ''abc'' 0 [None, Some (OtherError ''closed'')]),
        Some (Seeker ''abc'' 0 [Some (OtherError ''closed'')])]
   \<and> snd (Seek_start (Seeker ''abc'' 2 [None, None, Some (OtherError ''closed'')]))
       = Seeker ''abc'' 0 [None, Some (OtherError ''closed'')]
   \<and> snd (Seek_start (advance 3 (Seeker ''abc'' 0 [None, Some (OtherError ''closed'')])))
       = Seeker ''abc'' 0 [Some (OtherError ''closed'')]
   \<and> fst (snd (req script_env
       (script_client (NoAuth ''u'' ''p'') [reply 401 ''Basic realm=x'' 3, reply 201 [] 3])
       ''PUT'' ''f''
       (Some (Seeker ''abc'' 2 [None, None, Some (OtherError ''closed'')])) None))
     = Some (Seeker ''abc'' 3 [Some (OtherError ''closed'')])
   \<and> fst (req script_env
       (script_client (NoAuth ''u'' ''p'') [reply 401 ''Basic realm=x'' 3, reply 201 [] 3])
       ''PUT'' ''f'' (Some (Seeker ''abc'' 2 [None, Some (OtherError ''closed'')])) None)
     = (None, Some (OtherError ''closed''))
   \<and> map a_body (sent (httpc (snd (snd (req script_env
       (script_client (NoAuth ''u'' ''p'') [reply 401 ''Basic realm=x'' 3, reply 201 [] 3])
       ''PUT'' ''f'' (Some (Seeker ''abc'' 2 [None, Some (OtherError ''closed'')])) None)))))
     = [Some (Seeker ''abc'' 0 [Some (OtherError ''closed'')])]
   \<and> fst (Seek_start (Seeker ''abc'' 2 [Some (OtherError ''closed'')]))
       = Some (OtherError ''closed'')
   \<and> fst (req script_env (script_client (NoAuth ''u'' ''p'') [reply 201 [] 3])
            ''PUT'' ''f'' (Some (Seeker ''abc'' 2 [Some (OtherError ''closed'')])) None)
       = (None, Some (OtherError ''closed''))
   \<and> snd (snd (req script_env (script_client (NoAuth ''u'' ''p'') [reply 201 [] 3])
            ''PUT'' ''f'' (Some (Seeker ''abc'' 2 [Some (OtherError ''closed'')])) None))
       = script_client (NoAuth ''u'' ''p'') [reply 201 [] 3]"
proof -
  let ?c1 = "script_client (NoAuth ''u'' ''p'') [reply 401 ''Basic realm=x'' 3, reply 201 [] 3]"
  let ?R1 = "req script_env ?c1 ''PUT'' ''f''
               (Some (Seeker ''abc'' 2 [None, None, Some (OtherError ''closed'')])) None"
  let ?R3 = "req script_env ?c1 ''PUT'' ''f''
               (Some (Seeker ''abc'' 2 [None, Some (OtherError ''closed'')])) None"
  let ?c2 = "script_client (NoAuth ''u'' ''p'') [reply 201 [] 3]"
  let ?R2 = "req script_env ?c2 ''PUT'' ''f''
               (Some (Seeker ''abc'' 2 [Some (OtherError ''closed'')])) None"
  have r2: "?R2 = (fst ?R2, fst (snd ?R2), snd (snd ?R2))" by simp
  have f: "fst (Seek_start (Seeker ''abc'' 2 [Some (OtherError ''closed'')]))
             = Some (OtherError ''closed'')" by simp
  have m: "map a_body (sent (httpc (snd (snd ?R1))))
             = [Some (Seeker ''abc'' 0 [None, Some (OtherError ''closed'')]),
                Some (Seeker ''abc'' 0 [Some (OtherError ''closed'')])]" by code_simp
  have b: "fst (snd ?R1) = Some (Seeker ''abc'' 3 [Some (OtherError ''closed'')])"
    by code_simp
  have e3: "fst ?R3 = (None, Some (OtherError ''closed''))" by code_simp
  have m3: "map a_body (sent (httpc (snd (snd ?R3))))
              = [Some (Seeker ''abc'' 0 [Some (OtherError ''closed'')])]" by code_simp
  from seekable_body_rewound [OF r2, THEN conjunct2, THEN conjunct2, THEN conjunct1,
                              rule_format, OF f] f m b e3 m3
  show ?thesis by simp
qed

section \<open>MKCOL\<close>

text \<open>
  Claim C4, as stated, fails for the status 401. A client with Basic credentials calls
  \<open>mkcol\<close> and the server answers 401: the caller gets the status 0 and the error
  \<open>Authorize\<close>, not the status 401.
\<close>

theorem mkcol_401_status_not_returned:
  "fst (mkcol script_env (script_client (BasicAuth ''u'' ''p'') [reply 401 [] 0]) ''x'')
     = (0, Some (PathError ''Authorize'' ''/dav/'' 401))"
  by code_simp

text \<open>
  Claim C4, amended. When \<open>req\<close> returns a response and no error (the status of
  that response is then not 401), \<open>mkcol\<close> returns 201 for the status 405 and every
  other status as it is, so 201 for both 201 and 405, with no error, and closes the body.
  When \<open>req\<close> returns an error (a transport failure or a terminal 401),
  \<open>mkcol\<close> returns the status 0 and that error.
\<close>

theorem mkcol_remaps_405:
  assumes "req E c ''MKCOL'' path None None = ((r, err), b, c1)"
  shows "(err = None \<longrightarrow>
            (\<exists>rs. r = Some rs \<and> StatusCode rs \<noteq> 401
               \<and> mkcol E c path
                   = ((if StatusCode rs = 405 then 201 else StatusCode rs, None),
                      close_body (Body rs) c1)
               \<and> (StatusCode rs = 201 \<or> StatusCode rs = 405 \<longrightarrow>
                    fst (fst (mkcol E c path)) = 201)))
       \<and> (\<forall>e. err = Some e \<longrightarrow> mkcol E c path = ((0, Some e), c1))"
  using assms req_result_shape [OF assms]
  by (auto simp: mkcol_def Let_def split: option.splits)

theorem mkcol_remaps_405_witness:
  "snd (fst (req script_env (script_client (BasicAuth ''u'' ''p'') [reply 405 [] 0])
               ''MKCOL'' ''x'' None None)) = None
   \<and> fst (mkcol script_env (script_client (BasicAuth ''u'' ''p'') [reply 405 [] 0]) ''x'')
       = (201, None)
   \<and> snd (fst (req script_env (script_client (BasicAuth ''u'' ''p'') [reply 401 [] 0])
               ''MKCOL'' ''x'' None None)) = Some (PathError ''Authorize'' ''/dav/'' 401)
   \<and> fst (mkcol script_env (script_client (BasicAuth ''u'' ''p'') [reply 401 [] 0]) ''x'')
       = (0, Some (PathError ''Authorize'' ''/dav/'' 401))"
proof -
  let ?c = "script_client (BasicAuth ''u'' ''p'') [reply 405 [] 0]"
  let ?R = "req script_env ?c ''MKCOL'' ''x'' None None"
  let ?k = "script_client (BasicAuth ''u'' ''p'') [reply 401 [] 0]"
  let ?Q = "req script_env ?k ''MKCOL'' ''x'' None None"
  have r: "?R = ((fst (fst ?R), snd (fst ?R)), fst (snd ?R), snd (snd ?R))" by simp
  have q: "?Q = ((fst (fst ?Q), snd (fst ?Q)), fst (snd ?Q), snd (snd ?Q))" by simp
  have e: "snd (fst ?R) = None" by code_simp
  have s: "fst (fst ?R) = Some \<lparr>StatusCode = 405, RespHeader = [], Body = 0, BodyData = []\<rparr>"
    by code_simp
  have e': "snd (fst ?Q) = Some (PathError ''Authorize'' ''/dav/'' 401)" by code_simp
  from mkcol_remaps_405 [OF r, THEN conjunct1, rule_format, OF e] s
  have "fst (mkcol script_env ?c ''x'') = (201, None)" by auto
  moreover from mkcol_remaps_405 [OF q, THEN conjunct2, rule_format, OF e']
  have "fst (mkcol script_env ?k ''x'') = (0, Some (PathError ''Authorize'' ''/dav/'' 401))"
    by simp
  ultimately show ?thesis using e e' by simp
qed

section \<open>Response bodies that stay open\<close>

text \<open>
  Claim C5. The code does not release the response body on the paths where
  \<open>req\<close> returns an error together with a response. A client with Basic credentials
  gets 401: one request was dispatched, \<open>mkcol\<close> returns the error, and no body has
  been closed; \<open>put\<close>, \<open>propfind\<close> and \<open>copymove\<close> behave the same.
  An anonymous client gets 401 with a Basic challenge, then 201: \<open>mkcol\<close> returns
  201 and only the body of the second response (number 1) has been closed, the body of
  the 401 response (number 0) never.
\<close>

theorem response_body_left_open:
  "length (sent (httpc (snd (mkcol script_env
       (script_client (BasicAuth ''u'' ''p'') [reply 401 [] 0]) ''x'')))) = 1
   \<and> fst (mkcol script_env (script_client (BasicAuth ''u'' ''p'') [reply 401 [] 0]) ''x'')
       = (0, Some (PathError ''Authorize'' ''/dav/'' 401))
   \<and> closed (httpc (snd (mkcol script_env
       (script_client (BasicAuth ''u'' ''p'') [reply 401 [] 0]) ''x''))) = []
   \<and> closed (httpc (snd (snd (put script_env
       (script_client (BasicAuth ''u'' ''p'') [reply 401 [] 0]) ''x'' None)))) = []
   \<and> closed (httpc (snd (propfind script_env
       (script_client (BasicAuth ''u'' ''p'') [reply 401 [] 0])
       ''x'' True ''<propfind/>'' () parse_ok))) = []
   \<and> map_option (closed \<circ> httpc \<circ> snd) (copymove script_env
       (script_client (BasicAuth ''u'' ''p'') [reply 401 [] 0]) ''COPY'' ''a'' ''b'' True)
       = Some []
   \<and> fst (mkcol script_env
       (script_client (NoAuth ''u'' ''p'') [reply 401 ''Basic realm=x'' 0, reply 201 [] 0]) ''x'')
       = (201, None)
   \<and> closed (httpc (snd (mkcol script_env
       (script_client (NoAuth ''u'' ''p'') [reply 401 ''Basic realm=x'' 0, reply 201 [] 0])
       ''x''))) = [1]"
  by code_simp

section \<open>PROPFIND\<close>

text \<open>
  Claim C8, as stated, fails for the status 401. A client with Basic credentials calls
  \<open>propfind\<close> and the server answers 401: the error is \<open>Authorize\<close> with the
  client's root, not \<open>PROPFIND\<close> with the given path.
\<close>

theorem propfind_401_is_not_a_PROPFIND_error:
  "fst (propfind script_env (script_client (BasicAuth ''u'' ''p'') [reply 401 [] 0])
          ''x'' True ''<propfind/>'' () parse_ok)
     = Some (PathError ''Authorize'' ''/dav/'' 401)"
  by code_simp

text \<open>
  Claim C8, amended. Every request that a call of \<open>propfind\<close> dispatches is the
  client's interceptor, if there is one, applied to a request to which the hook has added
  \<open>Depth\<close> (0 when \<open>self\<close> is true, 1 otherwise), \<open>Content-Type\<close>,
  \<open>Accept\<close>, \<open>Accept-Charset\<close> and an empty \<open>Accept-Encoding\<close>, in this order.
  When \<open>req\<close> returns an error (a transport failure or a terminal 401),
  \<open>propfind\<close> returns that error. When \<open>req\<close> returns a response and no error,
  a status other than 207 gives the error \<open>PROPFIND\<close> with the given path and the
  status, the status 207 gives what \<open>parseXML\<close> returns for the body, the result
  target and the parse callback, and the body is closed in both cases.
\<close>

theorem propfind_contract:
  assumes "req E c ''PROPFIND'' path (Some (Seeker body 0 [])) (Some (propfind_hook self))
             = ((r, err), b, c1)"
  shows "(\<forall>a\<in>set (drop (length (sent (httpc c))) (sent (httpc c1))).
            \<exists>rq. a_request a
                   = (case interceptor c of
                        None \<Rightarrow> propfind_hook self rq
                      | Some g \<Rightarrow> g ''PROPFIND'' (propfind_hook self rq))
                 \<and> Header (propfind_hook self rq)
                     = Header rq @ [(''Depth'', if self then ''0'' else ''1''),
                                    (''Content-Type'', ''application/xml;charset=UTF-8''),
                                    (''Accept'', ''application/xml,text/xml''),
                                    (''Accept-Charset'', ''utf-8''),
                                    (''Accept-Encoding'', [])])
       \<and> (\<forall>e. err = Some e \<longrightarrow> propfind E c path self body resp parse = (Some e, c1))
       \<and> (err = None \<longrightarrow>
            (\<exists>rs. r = Some rs \<and> StatusCode rs \<noteq> 401
               \<and> propfind E c path self body resp parse
                   = (if StatusCode rs \<noteq> 207
                      then Some (PathError ''PROPFIND'' path (StatusCode rs))
                      else parseXML E (BodyData rs) resp parse,
                      close_body (Body rs) c1)))"
proof -
  from req_requests [OF assms]
  have "\<forall>a\<in>set (drop (length (sent (httpc c))) (sent (httpc c1))).
            \<exists>rq. a_request a
                   = (case interceptor c of
                        None \<Rightarrow> propfind_hook self rq
                      | Some g \<Rightarrow> g ''PROPFIND'' (propfind_hook self rq))
                 \<and> Header (propfind_hook self rq)
                     = Header rq @ [(''Depth'', if self then ''0'' else ''1''),
                                    (''Content-Type'', ''application/xml;charset=UTF-8''),
                                    (''Accept'', ''application/xml,text/xml''),
                                    (''Accept-Charset'', ''utf-8''),
                                    (''Accept-Encoding'', [])]"
    unfolding hooks_Some propfind_hook_Header by simp
  moreover have "\<forall>e. err = Some e \<longrightarrow> propfind E c path self body resp parse = (Some e, c1)"
    using assms by (auto simp: propfind_def split: option.splits)
  moreover have "err = None \<longrightarrow>
            (\<exists>rs. r = Some rs \<and> StatusCode rs \<noteq> 401
               \<and> propfind E c path self body resp parse
                   = (if StatusCode rs \<noteq> 207
                      then Some (PathError ''PROPFIND'' path (StatusCode rs))
                      else parseXML E (BodyData rs) resp parse,
                      close_body (Body rs) c1))"
    using assms req_result_shape [OF assms] by (auto simp: propfind_def split: option.splits)
  ultimately show ?thesis by blast
qed

theorem propfind_contract_witness:
  "snd (fst (req script_env (script_client (BasicAuth ''u'' ''p'') [reply 404 [] 0])
               ''PROPFIND'' ''x'' (Some (Seeker ''<propfind/>'' 0 []))
               (Some (propfind_hook True)))) = None
   \<and> fst (propfind script_env (script_client (BasicAuth ''u'' ''p'') [reply 404 [] 0])
            ''x'' True ''<propfind/>'' () parse_ok)
       = Some (PathError ''PROPFIND'' ''x'' 404)
   \<and> snd (fst (req script_env (script_client (BasicAuth ''u'' ''p'') [reply 401 [] 0])
               ''PROPFIND'' ''x'' (Some (Seeker ''<propfind/>'' 0 []))
               (Some (propfind_hook True)))) = Some (PathError ''Authorize'' ''/dav/'' 401)
   \<and> fst (propfind script_env (script_client (BasicAuth ''u'' ''p'') [reply 401 [] 0])
            ''x'' True ''<propfind/>'' () parse_ok)
       = Some (PathError ''Authorize'' ''/dav/'' 401)
   \<and> map a_request (sent (httpc (snd (snd
         (req script_env (script_client (BasicAuth ''u'' ''p'') [reply 404 [] 0])
               ''PROPFIND'' ''x'' (Some (Seeker ''<propfind/>'' 0 []))
               (Some (propfind_hook True)))))))
       = [\<lparr>Method = ''PROPFIND'', URL = ''/dav/x'',
           Header = [(''Authorization'', ''BasicAuth''), (''Depth'', ''0''),
                     (''Content-Type'', ''application/xml;charset=UTF-8''),
                     (''Accept'', ''application/xml,text/xml''),
                     (''Accept-Charset'', ''utf-8''), (''Accept-Encoding'', [])]\<rparr>]"
proof -
  let ?c = "script_client (BasicAuth ''u'' ''p'') [reply 404 [] 0]"
  let ?R = "req script_env ?c ''PROPFIND'' ''x'' (Some (Seeker ''<propfind/>'' 0 []))
              (Some (propfind_hook True))"
  let ?k = "script_client (BasicAuth ''u'' ''p'') [reply 401 [] 0]"
  let ?Q = "req script_env ?k ''PROPFIND'' ''x'' (Some (Seeker ''<propfind/>'' 0 []))
              (Some (propfind_hook True))"
  have r: "?R = ((fst (fst ?R), snd (fst ?R)), fst (snd ?R), snd (snd ?R))" by simp
  have q: "?Q = ((fst (fst ?Q), snd (fst ?Q)), fst (snd ?Q), snd (snd ?Q))" by simp
  have e: "snd (fst ?R) = None" by code_simp
  have s: "fst (fst ?R) = Some \<lparr>StatusCode = 404, RespHeader = [], Body = 0, BodyData = []\<rparr>"
    by code_simp
  have e': "snd (fst ?Q) = Some (PathError ''Authorize'' ''/dav/'' 401)" by code_simp
  have m: "map a_request (sent (httpc (snd (snd ?R))))
       = [\<lparr>Method = ''PROPFIND'', URL = ''/dav/x'',
           Header = [(''Authorization'', ''BasicAuth''), (''Depth'', ''0''),
                     (''Content-Type'', ''application/xml;charset=UTF-8''),
                     (''Accept'', ''application/xml,text/xml''),
                     (''Accept-Charset'', ''utf-8''), (''Accept-Encoding'', [])]\<rparr>]"
    by code_simp
  note T = propfind_contract [OF r, of "()" parse_ok]
  note U = propfind_contract [OF q, of "()" parse_ok]
  from T [THEN conjunct2, THEN conjunct2, rule_format, OF e] s
  have "fst (propfind script_env ?c ''x'' True ''<propfind/>'' () parse_ok)
          = Some (PathError ''PROPFIND'' ''x'' 404)" by auto
  moreover from U [THEN conjunct2, THEN conjunct1, rule_format, OF e']
  have "fst (propfind script_env ?k ''x'' True ''<propfind/>'' () parse_ok)
          = Some (PathError ''Authorize'' ''/dav/'' 401)" by simp
  ultimately show ?thesis using e e' m by simp
qed

section \<open>COPY and MOVE\<close>

text \<open>
  Claim C9, as stated, fails for the status 409. The server answers 409, then 201, and
  the destination's parent is the root: \<open>doCopyMove\<close> returns 409 to
  \<open>copymove\<close>, and \<open>copymove\<close> returns no error.
\<close>

theorem copymove_succeeds_after_409:
  "fst (fst (doCopyMove script_env
               (script_client (BasicAuth ''u'' ''p'') [reply 409 [] 0, reply 201 [] 0])
               ''COPY'' ''a'' ''/b'' True)) = 409
   \<and> map_option fst (copymove script_env
               (script_client (BasicAuth ''u'' ''p'') [reply 409 [] 0, reply 201 [] 0])
               ''COPY'' ''a'' ''/b'' True) = Some None"
  by code_simp

text \<open>
  Claim C9, amended. Every request that \<open>doCopyMove\<close> dispatches is the client's
  interceptor, if there is one, applied to a request to which the hook has added
  \<open>Destination\<close>, the escaped join of the root and the new path, and then
  \<open>Overwrite\<close>, T or F. \<open>doCopyMove\<close> returns the status and body of the
  response that \<open>req\<close> returns, or the error of \<open>req\<close> with the status 0 and no
  body, which \<open>copymove\<close> returns as it is. On the status 201 or 204
  \<open>copymove\<close> closes the body and returns no error; on every status other than 201,
  204 and 409 it closes the body and returns the error made of the method, the old path
  and the status. On the status 409 it returns the error of
  \<open>createParentCollection\<close> when that fails, and otherwise what \<open>copymove\<close>,
  called again with the same arguments, returns (no error included), closing the body of
  the 409 response afterwards.
\<close>

theorem copymove_by_status:
  assumes "req E c method oldpath None (Some (copymove_hook E c newpath overwrite))
             = ((r, err), b, c1)"
  shows "(\<forall>a\<in>set (drop (length (sent (httpc c))) (sent (httpc c1))).
            \<exists>rq. a_request a
                   = (case interceptor c of
                        None \<Rightarrow> copymove_hook E c newpath overwrite rq
                      | Some g \<Rightarrow> g method (copymove_hook E c newpath overwrite rq))
                 \<and> Header (copymove_hook E c newpath overwrite rq)
                     = Header rq @ [(''Destination'', PathEscape E (Join E (root c) newpath)),
                                    (''Overwrite'', if overwrite then ''T'' else ''F'')])
       \<and> (\<forall>e. err = Some e \<longrightarrow>
             doCopyMove E c method oldpath newpath overwrite = ((0, None, Some e), c1)
             \<and> copymove E c method oldpath newpath overwrite = Some (Some e, c1))
       \<and> (err = None \<longrightarrow>
            (\<exists>rs. r = Some rs
               \<and> doCopyMove E c method oldpath newpath overwrite
                   = ((StatusCode rs, Some (Body rs, BodyData rs), None), c1)
               \<and> (StatusCode rs = 201 \<or> StatusCode rs = 204 \<longrightarrow>
                    copymove E c method oldpath newpath overwrite
                      = Some (None, close_body (Body rs) c1))
               \<and> (StatusCode rs \<noteq> 201 \<and> StatusCode rs \<noteq> 204 \<and> StatusCode rs \<noteq> 409 \<longrightarrow>
                    copymove E c method oldpath newpath overwrite
                      = Some (Some (PathError method oldpath (StatusCode rs)),
                              close_body (Body rs)
                                (if StatusCode rs = 207
                                 then log_todo method oldpath (Some (Body rs, BodyData rs)) c1
                                 else c1)))
               \<and> (StatusCode rs = 409 \<longrightarrow>
                    (\<forall>e c2. createParentCollection E c1 newpath = (Some e, c2) \<longrightarrow>
                       copymove E c method oldpath newpath overwrite
                         = Some (Some e, close_body (Body rs) c2))
                    \<and> (\<forall>c2. createParentCollection E c1 newpath = (None, c2) \<longrightarrow>
                       copymove E c method oldpath newpath overwrite
                         = Option.bind (copymove E c2 method oldpath newpath overwrite)
                             (\<lambda>r. Some (fst r, close_body (Body rs) (snd r)))))))"
proof -
  from req_requests [OF assms]
  have "\<forall>a\<in>set (drop (length (sent (httpc c))) (sent (httpc c1))).
            \<exists>rq. a_request a
                   = (case interceptor c of
                        None \<Rightarrow> copymove_hook E c newpath overwrite rq
                      | Some g \<Rightarrow> g method (copymove_hook E c newpath overwrite rq))
                 \<and> Header (copymove_hook E c newpath overwrite rq)
                     = Header rq @ [(''Destination'', PathEscape E (Join E (root c) newpath)),
                                    (''Overwrite'', if overwrite then ''T'' else ''F'')]"
    unfolding hooks_Some copymove_hook_Header by simp
  moreover have "\<forall>e. err = Some e \<longrightarrow>
             doCopyMove E c method oldpath newpath overwrite = ((0, None, Some e), c1)
             \<and> copymove E c method oldpath newpath overwrite = Some (Some e, c1)"
  proof (intro allI impI)
    fix e assume "err = Some e"
    with assms have d: "doCopyMove E c method oldpath newpath overwrite = ((0, None, Some e), c1)"
      by (auto simp: doCopyMove_def split: option.splits)
    then show "doCopyMove E c method oldpath newpath overwrite = ((0, None, Some e), c1)
             \<and> copymove E c method oldpath newpath overwrite = Some (Some e, c1)"
      by (subst copymove.simps) simp
  qed
  moreover have "err = None \<longrightarrow>
            (\<exists>rs. r = Some rs
               \<and> doCopyMove E c method oldpath newpath overwrite
                   = ((StatusCode rs, Some (Body rs, BodyData rs), None), c1)
               \<and> (StatusCode rs = 201 \<or> StatusCode rs = 204 \<longrightarrow>
                    copymove E c method oldpath newpath overwrite
                      = Some (None, close_body (Body rs) c1))
               \<and> (StatusCode rs \<noteq> 201 \<and> StatusCode rs \<noteq> 204 \<and> StatusCode rs \<noteq> 409 \<longrightarrow>
                    copymove E c method oldpath newpath overwrite
                      = Some (Some (PathError method oldpath (StatusCode rs)),
                              close_body (Body rs)
                                (if StatusCode rs = 207
                                 then log_todo method oldpath (Some (Body rs, BodyData rs)) c1
                                 else c1)))
               \<and> (StatusCode rs = 409 \<longrightarrow>
                    (\<forall>e c2. createParentCollection E c1 newpath = (Some e, c2) \<longrightarrow>
                       copymove E c method oldpath newpath overwrite
                         = Some (Some e, close_body (Body rs) c2))
                    \<and> (\<forall>c2. createParentCollection E c1 newpath = (None, c2) \<longrightarrow>
                       copymove E c method oldpath newpath overwrite
                         = Option.bind (copymove E c2 method oldpath newpath overwrite)
                             (\<lambda>r. Some (fst r, close_body (Body rs) (snd r))))))"
  proof
    assume n: "err = None"
    with req_result_shape [OF assms] obtain rs where rs: "r = Some rs" by auto
    with assms n have d: "doCopyMove E c method oldpath newpath overwrite
                   = ((StatusCode rs, Some (Body rs, BodyData rs), None), c1)"
      by (simp add: doCopyMove_def)
    have "StatusCode rs = 201 \<or> StatusCode rs = 204 \<longrightarrow>
                    copymove E c method oldpath newpath overwrite
                      = Some (None, close_body (Body rs) c1)"
      using d by (subst copymove.simps) (auto simp: close_data_Some)
    moreover have "StatusCode rs \<noteq> 201 \<and> StatusCode rs \<noteq> 204 \<and> StatusCode rs \<noteq> 409 \<longrightarrow>
                    copymove E c method oldpath newpath overwrite
                      = Some (Some (PathError method oldpath (StatusCode rs)),
                              close_body (Body rs)
                                (if StatusCode rs = 207
                                 then log_todo method oldpath (Some (Body rs, BodyData rs)) c1
                                 else c1))"
      using d by (subst copymove.simps) (auto simp: close_data_Some)
    moreover have "StatusCode rs = 409 \<longrightarrow>
                    (\<forall>e c2. createParentCollection E c1 newpath = (Some e, c2) \<longrightarrow>
                       copymove E c method oldpath newpath overwrite
                         = Some (Some e, close_body (Body rs) c2))
                    \<and> (\<forall>c2. createParentCollection E c1 newpath = (None, c2) \<longrightarrow>
                       copymove E c method oldpath newpath overwrite
                         = Option.bind (copymove E c2 method oldpath newpath overwrite)
                             (\<lambda>r. Some (fst r, close_body (Body rs) (snd r))))"
    proof (intro impI conjI allI)
      fix e c2
      assume "StatusCode rs = 409" "createParentCollection E c1 newpath = (Some e, c2)"
      with d show "copymove E c method oldpath newpath overwrite
                     = Some (Some e, close_body (Body rs) c2)"
        by (subst copymove.simps) (simp add: close_data_Some)
    next
      fix c2
      assume "StatusCode rs = 409" "createParentCollection E c1 newpath = (None, c2)"
      with d show "copymove E c method oldpath newpath overwrite
                     = Option.bind (copymove E c2 method oldpath newpath overwrite)
                         (\<lambda>r. Some (fst r, close_body (Body rs) (snd r)))"
        by (subst copymove.simps) (simp add: close_data_Some)
    qed
    ultimately show "\<exists>rs. r = Some rs
               \<and> doCopyMove E c method oldpath newpath overwrite
                   = ((StatusCode rs, Some (Body rs, BodyData rs), None), c1)
               \<and> (StatusCode rs = 201 \<or> StatusCode rs = 204 \<longrightarrow>
                    copymove E c method oldpath newpath overwrite
                      = Some (None, close_body (Body rs) c1))
               \<and> (StatusCode rs \<noteq> 201 \<and> StatusCode rs \<noteq> 204 \<and> StatusCode rs \<noteq> 409 \<longrightarrow>
                    copymove E c method oldpath newpath overwrite
                      = Some (Some (PathError method oldpath (StatusCode rs)),
                              close_body (Body rs)
                                (if StatusCode rs = 207
                                 then log_todo method oldpath (Some (Body rs, BodyData rs)) c1
                                 else c1)))
               \<and> (StatusCode rs = 409 \<longrightarrow>
                    (\<forall>e c2. createParentCollection E c1 newpath = (Some e, c2) \<longrightarrow>
                       copymove E c method oldpath newpath overwrite
                         = Some (Some e, close_body (Body rs) c2))
                    \<and> (\<forall>c2. createParentCollection E c1 newpath = (None, c2) \<longrightarrow>
                       copymove E c method oldpath newpath overwrite
                         = Option.bind (copymove E c2 method oldpath newpath overwrite)
                             (\<lambda>r. Some (fst r, close_body (Body rs) (snd r)))))"
      using rs d by blast
  qed
  ultimately show ?thesis by blast
qed

theorem copymove_by_status_witness:
  "snd (fst (req script_env (script_client (BasicAuth ''u'' ''p'') [reply 204 [] 0])
               ''MOVE'' ''a'' None
               (Some (copymove_hook script_env
                        (script_client (BasicAuth ''u'' ''p'') [reply 204 [] 0]) ''b'' False))))
     = None
   \<and> fst (doCopyMove script_env (script_client (BasicAuth ''u'' ''p'') [reply 204 [] 0])
            ''MOVE'' ''a'' ''b'' False) = (204, Some (0, []), None)
   \<and> map_option fst (copymove script_env
            (script_client (BasicAuth ''u'' ''p'') [reply 204 [] 0]) ''MOVE'' ''a'' ''b'' False)
       = Some None
   \<and> map_option fst (copymove script_env
            (script_client (BasicAuth ''u'' ''p'') [reply 404 [] 0]) ''MOVE'' ''a'' ''b'' False)
       = Some (Some (PathError ''MOVE'' ''a'' 404))
   \<and> map a_request (sent (httpc (snd (snd
         (req script_env (script_client (BasicAuth ''u'' ''p'') [reply 204 [] 0])
               ''MOVE'' ''a'' None
               (Some (copymove_hook script_env
                        (script_client (BasicAuth ''u'' ''p'') [reply 204 [] 0]) ''b'' False)))))))
       = [\<lparr>Method = ''MOVE'', URL = ''/dav/a'',
           Header = [(''Authorization'', ''BasicAuth''), (''Destination'', ''/dav/b''),
                     (''Overwrite'', ''F'')]\<rparr>]
   \<and> fst (fst (doCopyMove script_env
               (script_client (BasicAuth ''u'' ''p'') [reply 409 [] 0, reply 201 [] 0])
               ''MOVE'' ''a'' ''/b'' False)) = 409
   \<and> copymove script_env
         (script_client (BasicAuth ''u'' ''p'') [reply 409 [] 0, reply 201 [] 0])
         ''MOVE'' ''a'' ''/b'' False
       = Option.bind
           (copymove script_env
              (snd (doCopyMove script_env
                 (script_client (BasicAuth ''u'' ''p'') [reply 409 [] 0, reply 201 [] 0])
                 ''MOVE'' ''a'' ''/b'' False))
              ''MOVE'' ''a'' ''/b'' False)
           (\<lambda>r. Some (fst r, close_body 0 (snd r)))
   \<and> map_option fst (copymove script_env
         (script_client (BasicAuth ''u'' ''p'') [reply 409 [] 0, reply 201 [] 0])
         ''MOVE'' ''a'' ''/b'' False) = Some None
   \<and> fst (createParentCollection script_env
           (snd (doCopyMove script_env
              (script_client (BasicAuth ''u'' ''p'') [reply 409 [] 0])
              ''MOVE'' ''a'' ''a/b.txt'' False)) ''a/b.txt'')
       = Some (OtherError ''connection refused'')
   \<and> map_option fst (copymove script_env
         (script_client (BasicAuth ''u'' ''p'') [reply 409 [] 0])
         ''MOVE'' ''a'' ''a/b.txt'' False) = Some (Some (OtherError ''connection refused''))"
proof -
  let ?j = "script_client (BasicAuth ''u'' ''p'') [reply 409 [] 0, reply 201 [] 0]"
  let ?J = "req script_env ?j ''MOVE'' ''a'' None
              (Some (copymove_hook script_env ?j ''/b'' False))"
  let ?h = "script_client (BasicAuth ''u'' ''p'') [reply 409 [] 0]"
  let ?H = "req script_env ?h ''MOVE'' ''a'' None
              (Some (copymove_hook script_env ?h ''a/b.txt'' False))"
  have j: "?J = ((fst (fst ?J), snd (fst ?J)), fst (snd ?J), snd (snd ?J))" by simp
  have h: "?H = ((fst (fst ?H), snd (fst ?H)), fst (snd ?H), snd (snd ?H))" by simp
  have ej: "snd (fst ?J) = None" by code_simp
  have eh: "snd (fst ?H) = None" by code_simp
  have sj: "fst (fst ?J) = Some \<lparr>StatusCode = 409, RespHeader = [], Body = 0, BodyData = []\<rparr>"
    by code_simp
  have sh: "fst (fst ?H) = Some \<lparr>StatusCode = 409, RespHeader = [], Body = 0, BodyData = []\<rparr>"
    by code_simp
  note Tj = copymove_by_status [OF j, THEN conjunct2, THEN conjunct2, rule_format, OF ej]
  note Th = copymove_by_status [OF h, THEN conjunct2, THEN conjunct2, rule_format, OF eh]
  from Tj sj have dj: "doCopyMove script_env ?j ''MOVE'' ''a'' ''/b'' False
                         = ((409, Some (0, []), None), snd (snd ?J))" by auto
  from Th sh have dh: "doCopyMove script_env ?h ''MOVE'' ''a'' ''a/b.txt'' False
                         = ((409, Some (0, []), None), snd (snd ?H))" by auto
  have "path_Dir ''/b'' = ''/''" by code_simp
  then have cj: "createParentCollection script_env (snd (snd ?J)) ''/b'' = (None, snd (snd ?J))"
    by (simp add: createParentCollection_def)
  have fh: "fst (createParentCollection script_env (snd (snd ?H)) ''a/b.txt'')
              = Some (OtherError ''connection refused'')" by code_simp
  then have ch: "createParentCollection script_env (snd (snd ?H)) ''a/b.txt''
              = (Some (OtherError ''connection refused''),
                 snd (createParentCollection script_env (snd (snd ?H)) ''a/b.txt''))"
    by (simp add: prod_eq_iff)
  from Tj sj cj
  have bj: "copymove script_env ?j ''MOVE'' ''a'' ''/b'' False
       = Option.bind (copymove script_env (snd (snd ?J)) ''MOVE'' ''a'' ''/b'' False)
           (\<lambda>r. Some (fst r, close_body 0 (snd r)))" by auto
  from Th sh ch
  have bh: "map_option fst (copymove script_env ?h ''MOVE'' ''a'' ''a/b.txt'' False)
              = Some (Some (OtherError ''connection refused''))" by auto
  have nj: "map_option fst (copymove script_env ?j ''MOVE'' ''a'' ''/b'' False) = Some None"
    by code_simp
  let ?c = "script_client (BasicAuth ''u'' ''p'') [reply 204 [] 0]"
  let ?R = "req script_env ?c ''MOVE'' ''a'' None
              (Some (copymove_hook script_env ?c ''b'' False))"
  let ?k = "script_client (BasicAuth ''u'' ''p'') [reply 404 [] 0]"
  let ?Q = "req script_env ?k ''MOVE'' ''a'' None
              (Some (copymove_hook script_env ?k ''b'' False))"
  have r: "?R = ((fst (fst ?R), snd (fst ?R)), fst (snd ?R), snd (snd ?R))" by simp
  have q: "?Q = ((fst (fst ?Q), snd (fst ?Q)), fst (snd ?Q), snd (snd ?Q))" by simp
  have e: "snd (fst ?R) = None" by code_simp
  have s: "fst (fst ?R) = Some \<lparr>StatusCode = 204, RespHeader = [], Body = 0, BodyData = []\<rparr>"
    by code_simp
  have e': "snd (fst ?Q) = None" by code_simp
  have s': "fst (fst ?Q) = Some \<lparr>StatusCode = 404, RespHeader = [], Body = 0, BodyData = []\<rparr>"
    by code_simp
  have m: "map a_request (sent (httpc (snd (snd ?R))))
       = [\<lparr>Method = ''MOVE'', URL = ''/dav/a'',
           Header = [(''Authorization'', ''BasicAuth''), (''Destination'', ''/dav/b''),
                     (''Overwrite'', ''F'')]\<rparr>]"
    by code_simp
  note T = copymove_by_status [OF r, THEN conjunct2, THEN conjunct2, rule_format, OF e]
  note U = copymove_by_status [OF q, THEN conjunct2, THEN conjunct2, rule_format, OF e']
  from T s have "fst (doCopyMove script_env ?c ''MOVE'' ''a'' ''b'' False)
                   = (204, Some (0, []), None)"
    and "map_option fst (copymove script_env ?c ''MOVE'' ''a'' ''b'' False) = Some None"
    by auto
  moreover from U s'
  have "map_option fst (copymove script_env ?k ''MOVE'' ''a'' ''b'' False)
          = Some (Some (PathError ''MOVE'' ''a'' 404))"
    by auto
  ultimately show ?thesis using e m dj dh bj bh nj fh by simp
qed

section \<open>The retry after a conflict\<close>

text \<open>
  Claim C1, as stated, fails: nothing counts the retries. The server answers 409, 409 and
  then 201, and the destination's parent is the root: \<open>copymove\<close> dispatches three
  COPY requests and returns no error, so the second 409 did not end the call.
\<close>

theorem copymove_retries_twice:
  "map_option fst (copymove script_env
       (script_client (BasicAuth ''u'' ''p'') [reply 409 [] 0, reply 409 [] 0, reply 201 [] 0])
       ''COPY'' ''a'' ''/b'' True) = Some None
   \<and> map_option (map (Method \<circ> a_request) \<circ> sent \<circ> httpc \<circ> snd) (copymove script_env
       (script_client (BasicAuth ''u'' ''p'') [reply 409 [] 0, reply 409 [] 0, reply 201 [] 0])
       ''COPY'' ''a'' ''/b'' True) = Some [''COPY'', ''COPY'', ''COPY'']"
  by code_simp

text \<open>
  Against a server that answers every request with 409, a client that has credentials
  never gets an answer from \<open>copymove\<close> when the destination's parent is the
  root: every round ends in the next call.
\<close>

lemma doCopyMove_conflict_env:
  assumes "auth_Type (auth c) \<noteq> ''NoAuth''"
  shows "\<exists>data c1. doCopyMove conflict_env c method oldpath newpath overwrite
                     = ((409, data, None), c1) \<and> auth c1 = auth c"
  using assms
  by (simp add: doCopyMove_def req_authenticated dispatch_def rewind_def NewRequest_def
        send_def conflict_env_def script_env_def Let_def)

lemma copymove_conflict_env_never_returns:
  assumes "auth_Type (auth c) \<noteq> ''NoAuth''" and "path_Dir newpath = ''/''"
  shows "copymove conflict_env c method oldpath newpath overwrite = None"
proof (rule ccontr)
  assume "copymove conflict_env c method oldpath newpath overwrite \<noteq> None"
  then obtain y where y: "copymove conflict_env c method oldpath newpath overwrite = Some y"
    by auto
  have "E = conflict_env \<longrightarrow> auth_Type (auth k) \<noteq> ''NoAuth'' \<longrightarrow> path_Dir np = ''/'' \<longrightarrow> False"
    if "copymove E k m op np ov = Some z" for E k m op np ov z
  proof (rule copymove.raw_induct
      [where P = "\<lambda>E k m op np ov z. E = conflict_env \<longrightarrow> auth_Type (auth k) \<noteq> ''NoAuth''
                     \<longrightarrow> path_Dir np = ''/'' \<longrightarrow> False", OF _ that], goal_cases)
    case (1 f E k m op np ov z)
    show ?case
    proof (intro impI)
      assume E: "E = conflict_env" and a: "auth_Type (auth k) \<noteq> ''NoAuth''"
        and p: "path_Dir np = ''/''"
      from doCopyMove_conflict_env [OF a] obtain data c1 where
        d: "doCopyMove conflict_env k m op np ov = ((409, data, None), c1)"
        and a1: "auth c1 = auth k" by blast
      have cp: "createParentCollection conflict_env c1 np = (None, c1)"
        using p by (simp add: createParentCollection_def)
      from 1(2) E d cp obtain z' where "f conflict_env c1 m op np ov = Some z'"
        by (auto simp: bind_eq_Some_conv)
      from 1(1) [OF this] a a1 p show False by simp
    qed
  qed
  from this [OF y] assms show False by simp
qed

theorem copymove_never_returns:
  "copymove conflict_env (script_client (BasicAuth ''u'' ''p'') []) ''COPY'' ''a'' ''/b'' True
     = None"
proof -
  have "path_Dir ''/b'' = ''/''" by code_simp
  then show ?thesis
    by (intro copymove_conflict_env_never_returns) (simp_all add: script_client_def)
qed

lemma copymove_rounds_unfold:
  "copymove E c method oldpath newpath overwrite
     = (case copymove_attempt E c method oldpath newpath overwrite of
          Inl r \<Rightarrow> Some r
        | Inr (data, c2) \<Rightarrow>
            Option.bind (copymove E c2 method oldpath newpath overwrite)
              (\<lambda>r. Some (fst r, close_data data (snd r))))"
  by (subst copymove.simps)
     (simp add: copymove_attempt_def split: prod.splits option.splits)

lemma copymove_after_conflicts:
  "after_conflicts E k c method oldpath newpath overwrite = Some (ck, ds) \<Longrightarrow>
   copymove E c method oldpath newpath overwrite
     = Option.bind (copymove E ck method oldpath newpath overwrite)
         (\<lambda>r. Some (fst r, foldr close_data ds (snd r)))"
proof (induction k arbitrary: c ds)
  case 0
  then show ?case by simp
next
  case (Suc k)
  from Suc.prems obtain data c2 ds' where
    a: "copymove_attempt E c method oldpath newpath overwrite = Inr (data, c2)"
    and r: "after_conflicts E k c2 method oldpath newpath overwrite = Some (ck, ds')"
    and ds: "ds = data # ds'"
    by (auto split: sum.splits option.splits)
  have "copymove E c method oldpath newpath overwrite
          = Option.bind (copymove E c2 method oldpath newpath overwrite)
              (\<lambda>r. Some (fst r, close_data data (snd r)))"
    using a by (subst copymove_rounds_unfold) simp
  also have "\<dots> = Option.bind (copymove E ck method oldpath newpath overwrite)
         (\<lambda>r. Some (fst r, foldr close_data ds (snd r)))"
    unfolding Suc.IH [OF r] ds
    by (cases "copymove E ck method oldpath newpath overwrite") simp_all
  finally show ?case .
qed

lemma copymove_returns_after:
  assumes "after_conflicts E k c method oldpath newpath overwrite = Some (ck, ds)"
    and "copymove_attempt E ck method oldpath newpath overwrite = Inl r0"
  shows "copymove E c method oldpath newpath overwrite
           = Some (fst r0, foldr close_data ds (snd r0))"
proof -
  have "copymove E ck method oldpath newpath overwrite = Some r0"
    using assms(2) by (subst copymove_rounds_unfold) simp
  with copymove_after_conflicts [OF assms(1)] show ?thesis by simp
qed

lemma copymove_returned_after:
  assumes "copymove E c method oldpath newpath overwrite = Some r"
  shows "\<exists>k ck ds r0.
           after_conflicts E k c method oldpath newpath overwrite = Some (ck, ds)
           \<and> copymove_attempt E ck method oldpath newpath overwrite = Inl r0
           \<and> r = (fst r0, foldr close_data ds (snd r0))"
proof (rule copymove.raw_induct
    [where P = "\<lambda>E c m op np ov r. \<exists>k ck ds r0.
           after_conflicts E k c m op np ov = Some (ck, ds)
           \<and> copymove_attempt E ck m op np ov = Inl r0
           \<and> r = (fst r0, foldr close_data ds (snd r0))", OF _ assms], goal_cases)
  case (1 f E c m op np ov r)
  have body: "(case copymove_attempt E c m op np ov of
                 Inl r \<Rightarrow> Some r
               | Inr (data, c2) \<Rightarrow>
                   Option.bind (f E c2 m op np ov)
                     (\<lambda>r. Some (fst r, close_data data (snd r)))) = Some r"
  proof -
    have "(case doCopyMove E c m op np ov of
             ((s, data, Some e), c1) \<Rightarrow> Some (Some e, c1)
           | ((s, data, None), c1) \<Rightarrow>
               if s = 201 \<or> s = 204 then Some (None, close_data data c1)
               else if s = 207 then
                 Some (Some (PathError m op s), close_data data (log_todo m op data c1))
               else if s = 409 then
                 (case createParentCollection E c1 np of
                    (Some e, c2) \<Rightarrow> Some (Some e, close_data data c2)
                  | (None, c2) \<Rightarrow>
                      Option.bind (f E c2 m op np ov)
                        (\<lambda>r. Some (fst r, close_data data (snd r))))
               else Some (Some (PathError m op s), close_data data c1))
          = (case copymove_attempt E c m op np ov of
                 Inl r \<Rightarrow> Some r
               | Inr (data, c2) \<Rightarrow>
                   Option.bind (f E c2 m op np ov)
                     (\<lambda>r. Some (fst r, close_data data (snd r))))"
      by (simp add: copymove_attempt_def split: prod.splits option.splits)
    with 1(2) show ?thesis by simp
  qed
  show ?case
  proof (cases "copymove_attempt E c m op np ov")
    case (Inl r0)
    with body have "r = r0" by simp
    with Inl have "after_conflicts E 0 c m op np ov = Some (c, [])
       \<and> copymove_attempt E c m op np ov = Inl r0
       \<and> r = (fst r0, foldr close_data [] (snd r0))" by simp
    then show ?thesis by blast
  next
    case (Inr x)
    obtain data c2 where x: "x = (data, c2)" by (cases x) auto
    from body Inr x obtain r' where f: "f E c2 m op np ov = Some r'"
      and r: "r = (fst r', close_data data (snd r'))"
      by (auto simp: bind_eq_Some_conv)
    from 1(1) [OF f] obtain k ck ds r0 where
      a: "after_conflicts E k c2 m op np ov = Some (ck, ds)"
      and b: "copymove_attempt E ck m op np ov = Inl r0"
      and c: "r' = (fst r0, foldr close_data ds (snd r0))" by blast
    have "after_conflicts E (Suc k) c m op np ov = Some (ck, data # ds)"
      using Inr x a by simp
    moreover have "r = (fst r0, foldr close_data (data # ds) (snd r0))"
      using r c by simp
    ultimately show ?thesis using b by blast
  qed
qed

lemma mkcol_each_ok:
  "mkcol_each E c ps = (None, c2) \<longleftrightarrow>
     (\<exists>cs. length cs = length ps
         \<and> (\<forall>i<length ps. mkcol E ((c # cs) ! i) (ps ! i) = ((201, None), cs ! i))
         \<and> c2 = last (c # cs))"
proof (induction ps arbitrary: c)
  case Nil
  then show ?case by auto
next
  case (Cons p ps)
  show ?case
  proof
    assume a: "mkcol_each E c (p # ps) = (None, c2)"
    then obtain c1 where m: "mkcol E c p = ((201, None), c1)"
      and r: "mkcol_each E c1 ps = (None, c2)"
      by (auto split: prod.splits option.splits if_splits)
    from Cons.IH [of c1, THEN iffD1, OF r] obtain cs where cs: "length cs = length ps"
      "\<forall>i<length ps. mkcol E ((c1 # cs) ! i) (ps ! i) = ((201, None), cs ! i)"
      "c2 = last (c1 # cs)" by (elim exE conjE)
    have "\<forall>i<length (p # ps).
            mkcol E ((c # c1 # cs) ! i) ((p # ps) ! i) = ((201, None), (c1 # cs) ! i)"
    proof (intro allI impI)
      fix i assume i: "i < length (p # ps)"
      show "mkcol E ((c # c1 # cs) ! i) ((p # ps) ! i) = ((201, None), (c1 # cs) ! i)"
      proof (cases i)
        case 0
        with m show ?thesis by simp
      next
        case (Suc j)
        with i have "j < length ps" by simp
        with cs(2) Suc show ?thesis by simp
      qed
    qed
    with cs(1,3) show "\<exists>cs. length cs = length (p # ps)
         \<and> (\<forall>i<length (p # ps).
               mkcol E ((c # cs) ! i) ((p # ps) ! i) = ((201, None), cs ! i))
         \<and> c2 = last (c # cs)"
      by (intro exI [of _ "c1 # cs"]) simp
  next
    assume "\<exists>cs. length cs = length (p # ps)
         \<and> (\<forall>i<length (p # ps).
               mkcol E ((c # cs) ! i) ((p # ps) ! i) = ((201, None), cs ! i))
         \<and> c2 = last (c # cs)"
    then obtain cs where l: "length cs = length (p # ps)"
      and ch: "\<forall>i<length (p # ps).
               mkcol E ((c # cs) ! i) ((p # ps) ! i) = ((201, None), cs ! i)"
      and c2: "c2 = last (c # cs)" by blast
    from l obtain c1 cs' where cs: "cs = c1 # cs'" by (cases cs) auto
    have "0 < length (p # ps)" by simp
    from ch [rule_format, OF this] cs have m: "mkcol E c p = ((201, None), c1)" by simp
    have "\<forall>i<length ps. mkcol E ((c1 # cs') ! i) (ps ! i) = ((201, None), cs' ! i)"
    proof (intro allI impI)
      fix i assume "i < length ps"
      then have "Suc i < length (p # ps)" by simp
      from ch [rule_format, OF this] cs
      show "mkcol E ((c1 # cs') ! i) (ps ! i) = ((201, None), cs' ! i)" by simp
    qed
    moreover have "length cs' = length ps" using l cs by simp
    moreover have "c2 = last (c1 # cs')" using c2 cs by simp
    ultimately have "mkcol_each E c1 ps = (None, c2)"
      by (intro Cons.IH [of c1, THEN iffD2] exI [of _ cs']) simp
    with m show "mkcol_each E c (p # ps) = (None, c2)" by simp
  qed
qed

lemma createParentCollection_ok:
  "createParentCollection E c1 newpath = (None, c2) \<longleftrightarrow>
     (\<exists>cs. length cs = length (if path_Dir newpath = ''.'' \<or> path_Dir newpath = ''/''
                                then [] else ancestors (path_Dir newpath))
         \<and> (\<forall>i<length (if path_Dir newpath = ''.'' \<or> path_Dir newpath = ''/''
                          then [] else ancestors (path_Dir newpath)).
               mkcol E ((c1 # cs) ! i)
                 ((if path_Dir newpath = ''.'' \<or> path_Dir newpath = ''/''
                   then [] else ancestors (path_Dir newpath)) ! i)
                 = ((201, None), cs ! i))
         \<and> c2 = last (c1 # cs))"
proof -
  have "createParentCollection E c1 newpath
          = mkcol_each E c1 (if path_Dir newpath = ''.'' \<or> path_Dir newpath = ''/''
                             then [] else ancestors (path_Dir newpath))"
    by (simp add: createParentCollection_def MkdirAll_def)
  then show ?thesis by (simp only: mkcol_each_ok)
qed

lemma copymove_attempt_Inr:
  "copymove_attempt E c method oldpath newpath overwrite = Inr (data, c2) \<longleftrightarrow>
     (\<exists>c1. doCopyMove E c method oldpath newpath overwrite = ((409, data, None), c1)
          \<and> createParentCollection E c1 newpath = (None, c2))"
  by (auto simp: copymove_attempt_def split: prod.splits option.splits)

lemma copymove_attempt_Inl:
  "copymove_attempt E c method oldpath newpath overwrite = Inl r0 \<longleftrightarrow>
     (\<exists>s data e c1. doCopyMove E c method oldpath newpath overwrite = ((s, data, Some e), c1)
          \<and> r0 = (Some e, c1))
     \<or> (\<exists>s data c1. doCopyMove E c method oldpath newpath overwrite = ((s, data, None), c1)
          \<and> s \<noteq> 409
          \<and> r0 = (if s = 201 \<or> s = 204 then None else Some (PathError method oldpath s),
                  close_data data (if s = 207 then log_todo method oldpath data c1 else c1)))
     \<or> (\<exists>data c1 e c2. doCopyMove E c method oldpath newpath overwrite = ((409, data, None), c1)
          \<and> createParentCollection E c1 newpath = (Some e, c2)
          \<and> r0 = (Some e, close_data data c2))"
proof -
  obtain s data eo c1 where
    d: "doCopyMove E c method oldpath newpath overwrite = ((s, data, eo), c1)"
    by (cases "doCopyMove E c method oldpath newpath overwrite") auto
  obtain pe c2 where p: "createParentCollection E c1 newpath = (pe, c2)"
    by (cases "createParentCollection E c1 newpath") auto
  show ?thesis
  proof (cases eo)
    case (Some e)
    with d show ?thesis by (auto simp: copymove_attempt_def)
  next
    case None
    show ?thesis
    proof (cases "s = 409")
      case False
      with d None show ?thesis by (auto simp: copymove_attempt_def)
    next
      case True
      with d None p show ?thesis by (cases pe) (auto simp: copymove_attempt_def)
    qed
  qed
qed

text \<open>
  Claim C1, amended. A call of \<open>copymove\<close> returns exactly when, after some number
  of rounds that got 409 and created the parent collections, a round ends the call, and
  it returns the result of that round, after closing the bodies of the 409 responses, the
  last first. The number of rounds is any number: nothing bounds it. A round that got 409
  goes on to the next call exactly when \<open>createParentCollection\<close> returns no error.
  A round ends the call exactly when \<open>req\<close> returns an error, or the status is not
  409 (no error for 201 and 204, the error of the method, old path and status otherwise),
  or the status is 409 and \<open>createParentCollection\<close> fails, whose error it returns.
  \<open>createParentCollection\<close> returns no error exactly when \<open>mkcol\<close> has been
  run for every ancestor collection of the new path, from the outermost to the parent
  directory itself, each on the client the one before left and each returning 201 (an
  existing collection counts as created); there is none when the parent directory is
  \<open>.\<close> or \<open>/\<close>.
\<close>

theorem copymove_conflict_retries:
  "(copymove E c method oldpath newpath overwrite = Some r \<longleftrightarrow>
      (\<exists>k ck ds r0.
          after_conflicts E k c method oldpath newpath overwrite = Some (ck, ds)
          \<and> copymove_attempt E ck method oldpath newpath overwrite = Inl r0
          \<and> r = (fst r0, foldr close_data ds (snd r0))))
   \<and> (copymove_attempt E c method oldpath newpath overwrite = Inr (data, c2) \<longleftrightarrow>
      (\<exists>c1. doCopyMove E c method oldpath newpath overwrite = ((409, data, None), c1)
           \<and> createParentCollection E c1 newpath = (None, c2)))
   \<and> (copymove_attempt E c method oldpath newpath overwrite = Inl r1 \<longleftrightarrow>
      (\<exists>s d e c1. doCopyMove E c method oldpath newpath overwrite = ((s, d, Some e), c1)
           \<and> r1 = (Some e, c1))
      \<or> (\<exists>s d c1. doCopyMove E c method oldpath newpath overwrite = ((s, d, None), c1)
           \<and> s \<noteq> 409
           \<and> r1 = (if s = 201 \<or> s = 204 then None else Some (PathError method oldpath s),
                   close_data d (if s = 207 then log_todo method oldpath d c1 else c1)))
      \<or> (\<exists>d c1 e c3. doCopyMove E c method oldpath newpath overwrite = ((409, d, None), c1)
           \<and> createParentCollection E c1 newpath = (Some e, c3)
           \<and> r1 = (Some e, close_data d c3)))
   \<and> (createParentCollection E k1 newpath = (None, k2) \<longleftrightarrow>
      (\<exists>cs. length cs = length (if path_Dir newpath = ''.'' \<or> path_Dir newpath = ''/''
                                 then [] else ancestors (path_Dir newpath))
          \<and> (\<forall>i<length (if path_Dir newpath = ''.'' \<or> path_Dir newpath = ''/''
                           then [] else ancestors (path_Dir newpath)).
                mkcol E ((k1 # cs) ! i)
                  ((if path_Dir newpath = ''.'' \<or> path_Dir newpath = ''/''
                    then [] else ancestors (path_Dir newpath)) ! i)
                  = ((201, None), cs ! i))
          \<and> k2 = last (k1 # cs)))"
proof (intro conjI)
  show "copymove E c method oldpath newpath overwrite = Some r \<longleftrightarrow>
      (\<exists>k ck ds r0.
          after_conflicts E k c method oldpath newpath overwrite = Some (ck, ds)
          \<and> copymove_attempt E ck method oldpath newpath overwrite = Inl r0
          \<and> r = (fst r0, foldr close_data ds (snd r0)))"
  proof
    assume "copymove E c method oldpath newpath overwrite = Some r"
    then show "\<exists>k ck ds r0.
          after_conflicts E k c method oldpath newpath overwrite = Some (ck, ds)
          \<and> copymove_attempt E ck method oldpath newpath overwrite = Inl r0
          \<and> r = (fst r0, foldr close_data ds (snd r0))"
      by (rule copymove_returned_after)
  next
    assume "\<exists>k ck ds r0.
          after_conflicts E k c method oldpath newpath overwrite = Some (ck, ds)
          \<and> copymove_attempt E ck method oldpath newpath overwrite = Inl r0
          \<and> r = (fst r0, foldr close_data ds (snd r0))"
    then obtain k ck ds r0 where
      "after_conflicts E k c method oldpath newpath overwrite = Some (ck, ds)"
      "copymove_attempt E ck method oldpath newpath overwrite = Inl r0"
      "r = (fst r0, foldr close_data ds (snd r0))" by (elim exE conjE)
    then show "copymove E c method oldpath newpath overwrite = Some r"
      by (simp add: copymove_returns_after)
  qed
qed (rule copymove_attempt_Inr copymove_attempt_Inl createParentCollection_ok)+

theorem copymove_conflict_retries_witness:
  "path_Dir ''a/b/file.txt'' = ''a/b'' \<and> ancestors ''a/b'' = [''a'', ''a/b'']
   \<and> map_option fst (copymove script_env
         (script_client (BasicAuth ''u'' ''p'')
            [reply 409 [] 0, reply 201 [] 0, reply 405 [] 0, reply 201 [] 0])
         ''COPY'' ''x'' ''a/b/file.txt'' True) = Some None
   \<and> map_option (map (Method \<circ> a_request) \<circ> sent \<circ> httpc \<circ> snd) (copymove script_env
         (script_client (BasicAuth ''u'' ''p'')
            [reply 409 [] 0, reply 201 [] 0, reply 405 [] 0, reply 201 [] 0])
         ''COPY'' ''x'' ''a/b/file.txt'' True)
       = Some [''COPY'', ''MKCOL'', ''MKCOL'', ''COPY'']
   \<and> map_option (map (URL \<circ> a_request) \<circ> sent \<circ> httpc \<circ> snd) (copymove script_env
         (script_client (BasicAuth ''u'' ''p'')
            [reply 409 [] 0, reply 201 [] 0, reply 405 [] 0, reply 201 [] 0])
         ''COPY'' ''x'' ''a/b/file.txt'' True)
       = Some [''/dav/x'', ''/dav/a'', ''/dav/a/b'', ''/dav/x'']
   \<and> map_option (length \<circ> snd) (after_conflicts script_env 1
         (script_client (BasicAuth ''u'' ''p'')
            [reply 409 [] 0, reply 201 [] 0, reply 405 [] 0, reply 201 [] 0])
         ''COPY'' ''x'' ''a/b/file.txt'' True) = Some 1
   \<and> (\<exists>k ck ds r0.
         after_conflicts script_env k
           (script_client (BasicAuth ''u'' ''p'')
              [reply 409 [] 0, reply 201 [] 0, reply 405 [] 0, reply 201 [] 0])
           ''COPY'' ''x'' ''a/b/file.txt'' True = Some (ck, ds)
         \<and> copymove_attempt script_env ck ''COPY'' ''x'' ''a/b/file.txt'' True = Inl r0
         \<and> fst r0 = None)
   \<and> fst (createParentCollection script_env
           (snd (doCopyMove script_env
              (script_client (BasicAuth ''u'' ''p'')
                 [reply 409 [] 0, reply 201 [] 0, reply 405 [] 0, reply 201 [] 0])
              ''COPY'' ''x'' ''a/b/file.txt'' True)) ''a/b/file.txt'') = None
   \<and> (\<exists>k1 k2.
         mkcol script_env
           (snd (doCopyMove script_env
              (script_client (BasicAuth ''u'' ''p'')
                 [reply 409 [] 0, reply 201 [] 0, reply 405 [] 0, reply 201 [] 0])
              ''COPY'' ''x'' ''a/b/file.txt'' True)) ''a'' = ((201, None), k1)
         \<and> mkcol script_env k1 ''a/b'' = ((201, None), k2)
         \<and> snd (createParentCollection script_env
                 (snd (doCopyMove script_env
                    (script_client (BasicAuth ''u'' ''p'')
                       [reply 409 [] 0, reply 201 [] 0, reply 405 [] 0, reply 201 [] 0])
                    ''COPY'' ''x'' ''a/b/file.txt'' True)) ''a/b/file.txt'') = k2)"
proof -
  let ?D = "doCopyMove script_env
              (script_client (BasicAuth ''u'' ''p'')
                 [reply 409 [] 0, reply 201 [] 0, reply 405 [] 0, reply 201 [] 0])
              ''COPY'' ''x'' ''a/b/file.txt'' True"
  let ?P = "createParentCollection script_env (snd ?D) ''a/b/file.txt''"
  let ?ps = "if path_Dir ''a/b/file.txt'' = ''.'' \<or> path_Dir ''a/b/file.txt'' = ''/''
             then [] else ancestors (path_Dir ''a/b/file.txt'')"
  have ps: "?ps = [''a'', ''a/b'']" by code_simp
  have fp: "fst ?P = None" by code_simp
  then have "?P = (None, snd ?P)" by (simp add: prod_eq_iff)
  from copymove_conflict_retries [THEN conjunct2, THEN conjunct2, THEN conjunct2,
                                  THEN iffD1, OF this]
  obtain cs where l: "length cs = length ?ps"
    and ch: "\<forall>i<length ?ps. mkcol script_env ((snd ?D # cs) ! i) (?ps ! i)
                                 = ((201, None), cs ! i)"
    and la: "snd ?P = last (snd ?D # cs)" by (elim exE conjE)
  from l ps obtain k1 k2 where cs: "cs = [k1, k2]"
    by (cases cs; cases "tl cs") auto
  have i0: "0 < length ?ps" and i1: "1 < length ?ps" using ps by simp_all
  from ch [rule_format, OF i0] ch [rule_format, OF i1] la
  have chain: "\<exists>k1 k2. mkcol script_env (snd ?D) ''a'' = ((201, None), k1)
         \<and> mkcol script_env k1 ''a/b'' = ((201, None), k2) \<and> snd ?P = k2"
    unfolding ps cs by simp
  let ?c = "script_client (BasicAuth ''u'' ''p'')
              [reply 409 [] 0, reply 201 [] 0, reply 405 [] 0, reply 201 [] 0]"
  let ?R = "copymove script_env ?c ''COPY'' ''x'' ''a/b/file.txt'' True"
  have p: "path_Dir ''a/b/file.txt'' = ''a/b''" by code_simp
  have a: "ancestors ''a/b'' = [''a'', ''a/b'']" by code_simp
  have e: "map_option fst ?R = Some None" by code_simp
  have m: "map_option (map (Method \<circ> a_request) \<circ> sent \<circ> httpc \<circ> snd) ?R
             = Some [''COPY'', ''MKCOL'', ''MKCOL'', ''COPY'']" by code_simp
  have u: "map_option (map (URL \<circ> a_request) \<circ> sent \<circ> httpc \<circ> snd) ?R
             = Some [''/dav/x'', ''/dav/a'', ''/dav/a/b'', ''/dav/x'']" by code_simp
  have k: "map_option (length \<circ> snd)
             (after_conflicts script_env 1 ?c ''COPY'' ''x'' ''a/b/file.txt'' True) = Some 1"
    by code_simp
  from e obtain r where r: "?R = Some r" and f: "fst r = None" by auto
  from copymove_conflict_retries [THEN conjunct1, THEN iffD1, OF r]
  obtain k' ck ds r0 where
    "after_conflicts script_env k' ?c ''COPY'' ''x'' ''a/b/file.txt'' True = Some (ck, ds)"
    "copymove_attempt script_env ck ''COPY'' ''x'' ''a/b/file.txt'' True = Inl r0"
    "r = (fst r0, foldr close_data ds (snd r0))" by (elim exE conjE)
  with f
  have "\<exists>k ck ds r0.
         after_conflicts script_env k ?c ''COPY'' ''x'' ''a/b/file.txt'' True = Some (ck, ds)
         \<and> copymove_attempt script_env ck ''COPY'' ''x'' ''a/b/file.txt'' True = Inl r0
         \<and> fst r0 = None"
    by (intro exI [of _ k'] exI [of _ ck] exI [of _ ds] exI [of _ r0]) simp
  with p a e m u k fp chain show ?thesis by simp
qed

end
